theory Spec2Isabelle
  imports Complex_Main
begin

text \<open>
  A shallow embedding of \<open>akita_fastapi/testclient.py\<close>: the function
  \<open>requests_to_har_entry\<close>, which turns a request, its response and a start time into
  a HAR entry, and the method \<open>TestClient.request\<close>, which performs a request and
  records it. The parts of the Python standard library that decide the result
  (\<open>urllib.parse\<close>, the UTF-8 and UTF-7 codecs) are embedded as CPython 3.11 runs them;
  \<open>requests\<close>, the clock and the server are parameters.
\<close>

section \<open>Python values\<close>

text \<open>
  A Python \<open>str\<close> is a sequence of Unicode code points and \<open>len\<close> counts code points;
  a \<open>bytes\<close> object is a sequence of octets. Both are lists of naturals here. The
  function \<open>py\<close> turns an ASCII literal into the \<open>str\<close> (or \<open>bytes\<close>) it denotes.
\<close>

type_synonym codepoint = nat
type_synonym pystr = "codepoint list"
type_synonym bytes = "nat list"

definition py :: "string \<Rightarrow> pystr" where
  "py s = map of_char s"

text \<open>
  Every \<open>raise\<close> that \<open>requests_to_har_entry\<close> and \<open>TestClient.request\<close> can reach is a
  value of \<open>error\<close>. The constructor \<open>InvalidTimestamp\<close> is the
  \<open>ValueError('start datetime must be timezone-aware')\<close> of line 38.
\<close>

datatype error =
    InvalidTimestamp
  | PrepareError string      \<comment> \<open>any exception raised by \<open>request.prepare()\<close>\<close>
  | InvalidIPv6URL           \<comment> \<open>\<open>ValueError("Invalid IPv6 URL")\<close> of \<open>urlsplit\<close>\<close>
  | InvalidBracketedHost     \<comment> \<open>\<open>ValueError\<close> of \<open>_check_bracketed_host\<close>\<close>
  | InvalidNetloc            \<comment> \<open>\<open>ValueError\<close> of \<open>_checknetloc\<close>\<close>
  | UnicodeEncodeError       \<comment> \<open>\<open>str.encode("utf-8")\<close> on a lone surrogate\<close>
  | UnicodeDecodeError       \<comment> \<open>\<open>bytes.decode("utf-7")\<close> on an ill-formed body\<close>
  | AttributeError           \<comment> \<open>\<open>.decode\<close> on a body that is a \<open>str\<close>\<close>
  | KeyError pystr           \<comment> \<open>\<open>prepared.headers['Content-Type']\<close> without that header\<close>
  | TypeError                \<comment> \<open>\<open>prepared.headers[...]\<close> when \<open>prepared.headers\<close> is \<open>None\<close>\<close>
  | NaiveDatetimeError       \<comment> \<open>\<open>TypeError\<close> of line 89: an aware minus a naive \<open>datetime\<close>\<close>
  | UrljoinError string      \<comment> \<open>any exception raised by \<open>parse.urljoin\<close> on line 134\<close>
  | TransportError string    \<comment> \<open>any exception raised by \<open>super().request\<close>\<close>

subsection \<open>ASCII case mapping\<close>

text \<open>
  \<open>str.lower\<close> and \<open>str.upper\<close> on ASCII letters. The scheme of a URL consists of ASCII
  characters only, so \<open>lower\<close> is exact there; header field names are ASCII tokens.
\<close>

definition ascii_lower :: "codepoint \<Rightarrow> codepoint" where
  "ascii_lower c = (if 65 \<le> c \<and> c \<le> 90 then c + 32 else c)"

definition ascii_upper :: "codepoint \<Rightarrow> codepoint" where
  "ascii_upper c = (if 97 \<le> c \<and> c \<le> 122 then c - 32 else c)"

definition lower :: "pystr \<Rightarrow> pystr" where
  "lower s = map ascii_lower s"

subsection \<open>\<open>str.join\<close>, \<open>str.split\<close> and \<open>str.partition\<close>\<close>

fun join :: "pystr \<Rightarrow> pystr list \<Rightarrow> pystr" where
  "join sep [] = []"
| "join sep [x] = x"
| "join sep (x # y # ys) = x @ sep @ join sep (y # ys)"

text \<open>\<open>s.split(c)\<close> for a separator of one character: never the empty list.\<close>

fun split_on :: "codepoint \<Rightarrow> pystr \<Rightarrow> pystr list" where
  "split_on c [] = [[]]"
| "split_on c (x # xs) =
     (if x = c then [] # split_on c xs
      else case split_on c xs of
             [] \<Rightarrow> [[x]]
           | (w # ws) \<Rightarrow> (x # w) # ws)"

text \<open>
  \<open>s.partition(c)\<close> as \<open>(head, has_sep, tail)\<close>; also \<open>s.split(c, 1)\<close> when \<open>c in s\<close>.
\<close>

definition partition_on :: "codepoint \<Rightarrow> pystr \<Rightarrow> pystr \<times> bool \<times> pystr" where
  "partition_on c s =
     (takeWhile (\<lambda>x. x \<noteq> c) s, c \<in> set s, drop 1 (dropWhile (\<lambda>x. x \<noteq> c) s))"

subsection \<open>UTF-8\<close>

text \<open>
  \<open>str.encode("utf-8")\<close> with the default \<open>errors='strict'\<close>: a surrogate code point
  raises \<open>UnicodeEncodeError\<close>.
\<close>

definition utf8_bytes :: "codepoint \<Rightarrow> bytes" where
  "utf8_bytes c =
     (if c < 0x80 then [c]
      else if c < 0x800 then [0xC0 + c div 64, 0x80 + c mod 64]
      else if c < 0x10000 then
        [0xE0 + c div 4096, 0x80 + (c div 64) mod 64, 0x80 + c mod 64]
      else
        [0xF0 + c div 262144, 0x80 + (c div 4096) mod 64,
         0x80 + (c div 64) mod 64, 0x80 + c mod 64])"

definition is_surrogate :: "codepoint \<Rightarrow> bool" where
  "is_surrogate c \<longleftrightarrow> 0xD800 \<le> c \<and> c \<le> 0xDFFF"

fun utf8_encode :: "pystr \<Rightarrow> error + bytes" where
  "utf8_encode [] = Inr []"
| "utf8_encode (c # cs) =
     (if is_surrogate c then Inl UnicodeEncodeError
      else case utf8_encode cs of
             Inl e \<Rightarrow> Inl e
           | Inr bs \<Rightarrow> Inr (utf8_bytes c @ bs))"

text \<open>
  \<open>bytes.decode("utf-8", "replace")\<close>: every maximal ill-formed part becomes one
  U+FFFD, and decoding goes on at the byte that did not fit.
\<close>

definition is_cont :: "nat \<Rightarrow> bool" where
  "is_cont b \<longleftrightarrow> 0x80 \<le> b \<and> b \<le> 0xBF"

definition second_ok3 :: "nat \<Rightarrow> nat \<Rightarrow> bool" where
  "second_ok3 b c \<longleftrightarrow>
     is_cont c \<and> \<not> (if c < 0xA0 then b = 0xE0 else b = 0xED)"

definition second_ok4 :: "nat \<Rightarrow> nat \<Rightarrow> bool" where
  "second_ok4 b c \<longleftrightarrow>
     is_cont c \<and> \<not> (if c < 0x90 then b = 0xF0 else b = 0xF4)"

fun utf8_decode_replace :: "bytes \<Rightarrow> pystr" where
  "utf8_decode_replace [] = []"
| "utf8_decode_replace (b # bs) =
     (if b < 0x80 then b # utf8_decode_replace bs
      else if 0xC2 \<le> b \<and> b \<le> 0xDF then
        (case bs of
           [] \<Rightarrow> [0xFFFD]
         | c1 # r1 \<Rightarrow>
             if is_cont c1
             then ((b - 0xC0) * 64 + (c1 - 0x80)) # utf8_decode_replace r1
             else 0xFFFD # utf8_decode_replace bs)
      else if 0xE0 \<le> b \<and> b \<le> 0xEF then
        (case bs of
           [] \<Rightarrow> [0xFFFD]
         | c1 # r1 \<Rightarrow>
             if \<not> second_ok3 b c1 then 0xFFFD # utf8_decode_replace bs
             else
               (case r1 of
                  [] \<Rightarrow> [0xFFFD]
                | c2 # r2 \<Rightarrow>
                    if is_cont c2
                    then ((b - 0xE0) * 4096 + (c1 - 0x80) * 64 + (c2 - 0x80))
                           # utf8_decode_replace r2
                    else 0xFFFD # utf8_decode_replace r1))
      else if 0xF0 \<le> b \<and> b \<le> 0xF4 then
        (case bs of
           [] \<Rightarrow> [0xFFFD]
         | c1 # r1 \<Rightarrow>
             if \<not> second_ok4 b c1 then 0xFFFD # utf8_decode_replace bs
             else
               (case r1 of
                  [] \<Rightarrow> [0xFFFD]
                | c2 # r2 \<Rightarrow>
                    if \<not> is_cont c2 then 0xFFFD # utf8_decode_replace r1
                    else
                      (case r2 of
                         [] \<Rightarrow> [0xFFFD]
                       | c3 # r3 \<Rightarrow>
                           if is_cont c3
                           then ((b - 0xF0) * 262144 + (c1 - 0x80) * 4096
                                  + (c2 - 0x80) * 64 + (c3 - 0x80))
                                  # utf8_decode_replace r3
                           else 0xFFFD # utf8_decode_replace r2)))
      else 0xFFFD # utf8_decode_replace bs)"

subsection \<open>UTF-7\<close>

text \<open>
  \<open>bytes.decode("utf-7")\<close> with the default \<open>errors='strict'\<close>, as CPython's
  \<open>PyUnicode_DecodeUTF7Stateful\<close> runs it: outside a shift sequence every octet up to
  127 other than \<open>+\<close> stands for itself; \<open>+-\<close> stands for \<open>+\<close>; \<open>+\<close> before a base-64
  character opens a shift sequence of base-64 digits that carry UTF-16 code units; any
  other octet, a partial code unit, non-zero padding bits or a pending high surrogate
  at the end raise \<open>UnicodeDecodeError\<close>.
\<close>

definition decode_direct :: "nat \<Rightarrow> bool" where
  "decode_direct c \<longleftrightarrow> c \<le> 127 \<and> c \<noteq> 43"

definition is_base64 :: "nat \<Rightarrow> bool" where
  "is_base64 c \<longleftrightarrow>
     (65 \<le> c \<and> c \<le> 90) \<or> (97 \<le> c \<and> c \<le> 122) \<or> (48 \<le> c \<and> c \<le> 57)
     \<or> c = 43 \<or> c = 47"

definition from_base64 :: "nat \<Rightarrow> nat" where
  "from_base64 c =
     (if 65 \<le> c \<and> c \<le> 90 then c - 65
      else if 97 \<le> c \<and> c \<le> 122 then c - 71
      else if 48 \<le> c \<and> c \<le> 57 then c + 4
      else if c = 43 then 62 else 63)"

definition is_high_surrogate :: "codepoint \<Rightarrow> bool" where
  "is_high_surrogate c \<longleftrightarrow> 0xD800 \<le> c \<and> c \<le> 0xDBFF"

definition is_low_surrogate :: "codepoint \<Rightarrow> bool" where
  "is_low_surrogate c \<longleftrightarrow> 0xDC00 \<le> c \<and> c \<le> 0xDFFF"

definition join_surrogates :: "codepoint \<Rightarrow> codepoint \<Rightarrow> codepoint" where
  "join_surrogates hi lo = 0x10000 + (hi - 0xD800) * 1024 + (lo - 0xDC00)"

text \<open>
  The decoder's loop. Its variables are \<open>inShift\<close>, \<open>base64bits\<close>, \<open>base64buffer\<close>,
  \<open>surrogate\<close> (0 when none is pending) and the text written so far.
\<close>

fun utf7_loop :: "bool \<Rightarrow> nat \<Rightarrow> nat \<Rightarrow> codepoint \<Rightarrow> pystr \<Rightarrow> bytes \<Rightarrow> error + pystr" where
  "utf7_loop inShift bits buf sur out [] =
     (if inShift \<and> (sur \<noteq> 0 \<or> bits \<ge> 6 \<or> (bits > 0 \<and> buf \<noteq> 0))
      then Inl UnicodeDecodeError else Inr out)"
| "utf7_loop inShift bits buf sur out (ch # s) =
     (if inShift then
        (if is_base64 ch then
           (let buf1 = buf * 64 + from_base64 ch; bits1 = bits + 6 in
            if bits1 \<ge> 16 then
              (let outCh = buf1 div 2 ^ (bits1 - 16);
                   bits2 = bits1 - 16;
                   buf2 = buf1 mod 2 ^ bits2 in
               if sur \<noteq> 0 \<and> is_low_surrogate outCh then
                 utf7_loop True bits2 buf2 0 (out @ [join_surrogates sur outCh]) s
               else
                 (let out1 = (if sur \<noteq> 0 then out @ [sur] else out) in
                  if is_high_surrogate outCh then utf7_loop True bits2 buf2 outCh out1 s
                  else utf7_loop True bits2 buf2 0 (out1 @ [outCh]) s))
            else utf7_loop True bits1 buf1 sur out s)
         else
           (if bits \<ge> 6 then Inl UnicodeDecodeError
            else if bits > 0 \<and> buf \<noteq> 0 then Inl UnicodeDecodeError
            else
              (let out1 = (if sur \<noteq> 0 \<and> decode_direct ch then out @ [sur] else out) in
               if ch = 45 then utf7_loop False bits buf 0 out1 s
               else if decode_direct ch then utf7_loop False bits buf 0 (out1 @ [ch]) s
               else Inl UnicodeDecodeError)))
      else if ch = 43 then
        (case s of
           [] \<Rightarrow> utf7_loop True 0 0 0 out s
         | c2 # s2 \<Rightarrow>
             if c2 = 45 then utf7_loop False bits buf sur (out @ [43]) s2
             else if \<not> is_base64 c2 then Inl UnicodeDecodeError
             else utf7_loop True 0 0 0 out s)
      else if decode_direct ch then utf7_loop False bits buf sur (out @ [ch]) s
      else Inl UnicodeDecodeError)"

definition utf7_decode :: "bytes \<Rightarrow> error + pystr" where
  "utf7_decode b = utf7_loop False 0 0 0 [] b"

subsection \<open>\<open>repr\<close> of a string\<close>

text \<open>
  \<open>repr(s)\<close> for a \<open>str\<close>, as CPython's \<open>unicode_repr\<close> writes it: in double quotes
  when the string has a single quote and no double quote, otherwise in single quotes;
  the quote and the backslash escaped with a backslash; tab, line feed and carriage
  return as a backslash and \<open>t\<close>, \<open>n\<close> or \<open>r\<close>; the other ASCII control characters and every
  other character that is not printable as a backslash, \<open>x\<close>, \<open>u\<close> or \<open>U\<close>, and 2, 4 or 8
  hexadecimal digits. Which characters beyond ASCII are printable is a table of the
  Unicode database and a parameter here; a surrogate never is.
\<close>

definition hexdigit :: "nat \<Rightarrow> nat" where
  "hexdigit n = (if n < 10 then 48 + n else 87 + n)"

fun hexdigits :: "nat \<Rightarrow> nat \<Rightarrow> pystr" where
  "hexdigits 0 c = []"
| "hexdigits (Suc k) c = hexdigits k (c div 16) @ [hexdigit (c mod 16)]"

definition repr_quote :: "pystr \<Rightarrow> codepoint" where
  "repr_quote s = (if 39 \<in> set s \<and> 34 \<notin> set s then 34 else 39)"

definition repr_char :: "(codepoint \<Rightarrow> bool) \<Rightarrow> codepoint \<Rightarrow> codepoint \<Rightarrow> pystr" where
  "repr_char printable quote ch =
     (if ch = quote \<or> ch = 92 then [92, ch]
      else if ch = 9 then [92, 116]
      else if ch = 10 then [92, 110]
      else if ch = 13 then [92, 114]
      else if ch < 32 \<or> ch = 127 then [92, 120] @ hexdigits 2 ch
      else if ch < 127 then [ch]
      else if is_surrogate ch \<or> \<not> printable ch then
        (if ch \<le> 0xFF then [92, 120] @ hexdigits 2 ch
         else if ch \<le> 0xFFFF then [92, 117] @ hexdigits 4 ch
         else [92, 85] @ hexdigits 8 ch)
      else [ch])"

definition repr_str :: "(codepoint \<Rightarrow> bool) \<Rightarrow> pystr \<Rightarrow> pystr" where
  "repr_str printable s =
     [repr_quote s] @ concat (map (repr_char printable (repr_quote s)) s) @ [repr_quote s]"

text \<open>\<open>str((a, b))\<close> for a tuple of two strings.\<close>

definition str_pair :: "(codepoint \<Rightarrow> bool) \<Rightarrow> pystr \<times> pystr \<Rightarrow> pystr" where
  "str_pair printable t =
     [40] @ repr_str printable (fst t) @ [44, 32] @ repr_str printable (snd t) @ [41]"

section \<open>\<open>urllib.parse\<close>\<close>

text \<open>
  The functions of Python's \<open>urllib.parse\<close> that \<open>requests_to_har_entry\<close> calls, with
  the default arguments it leaves in place. Two checks of \<open>urlsplit\<close> consult tables of
  the standard library (\<open>unicodedata.normalize\<close> for NFKC, \<open>ipaddress\<close> and a regular
  expression for a host in brackets); they are parameters.
\<close>

record url_tables =
  nfkc :: "pystr \<Rightarrow> pystr"
  bracketed_host_ok :: "pystr \<Rightarrow> bool"

record split_result =
  sr_scheme :: pystr
  sr_netloc :: pystr
  sr_path :: pystr
  sr_query :: pystr
  sr_fragment :: pystr

definition is_ascii_alpha :: "codepoint \<Rightarrow> bool" where
  "is_ascii_alpha c \<longleftrightarrow> (65 \<le> c \<and> c \<le> 90) \<or> (97 \<le> c \<and> c \<le> 122)"

definition is_scheme_char :: "codepoint \<Rightarrow> bool" where
  "is_scheme_char c \<longleftrightarrow>
     (97 \<le> c \<and> c \<le> 122) \<or> (65 \<le> c \<and> c \<le> 90) \<or> (48 \<le> c \<and> c \<le> 57)
     \<or> c = 43 \<or> c = 45 \<or> c = 46"

definition is_netloc_delim :: "codepoint \<Rightarrow> bool" where
  "is_netloc_delim c \<longleftrightarrow> c = 47 \<or> c = 63 \<or> c = 35"

text \<open>\<open>_splitnetloc(url, 2)\<close>: the netloc ends at the first of \<open>/\<close>, \<open>?\<close> and \<open>#\<close>.\<close>

definition splitnetloc :: "pystr \<Rightarrow> pystr \<times> pystr" where
  "splitnetloc url =
     (takeWhile (\<lambda>c. \<not> is_netloc_delim c) (drop 2 url),
      dropWhile (\<lambda>c. \<not> is_netloc_delim c) (drop 2 url))"

definition checknetloc :: "('t url_tables_scheme) \<Rightarrow> pystr \<Rightarrow> bool" where
  "checknetloc T netloc =
     (if netloc = [] \<or> list_all (\<lambda>c. c < 128) netloc then True
      else
        (let n = filter (\<lambda>c. c \<noteq> 64 \<and> c \<noteq> 58 \<and> c \<noteq> 35 \<and> c \<noteq> 63) netloc;
             netloc2 = nfkc T n
         in if n = netloc2 then True
            else \<not> list_ex (\<lambda>c. c \<in> set netloc2) [47, 63, 35, 64, 58]))"

definition urlsplit :: "('t url_tables_scheme) \<Rightarrow> pystr \<Rightarrow> error + split_result" where
  "urlsplit T url0 =
     (let url1 = filter (\<lambda>c. c \<noteq> 9 \<and> c \<noteq> 13 \<and> c \<noteq> 10) (dropWhile (\<lambda>c. c \<le> 32) url0);
          pre = takeWhile (\<lambda>c. c \<noteq> 58) url1;
          has_scheme = (58 \<in> set url1 \<and> pre \<noteq> [] \<and> is_ascii_alpha (hd pre)
                          \<and> list_all is_scheme_char pre);
          scheme = (if has_scheme then lower pre else []);
          url2 = (if has_scheme then drop (length pre + 1) url1 else url1);
          has_netloc = (take 2 url2 = [47, 47]);
          netloc = (if has_netloc then fst (splitnetloc url2) else []);
          url3 = (if has_netloc then snd (splitnetloc url2) else url2)
      in if has_netloc \<and> (91 \<in> set netloc) \<noteq> (93 \<in> set netloc) then Inl InvalidIPv6URL
         else if has_netloc \<and> 91 \<in> set netloc \<and> 93 \<in> set netloc
                 \<and> \<not> bracketed_host_ok T
                       (fst (partition_on 93 (snd (snd (partition_on 91 netloc)))))
         then Inl InvalidBracketedHost
         else
           (let fragment = (if 35 \<in> set url3 then snd (snd (partition_on 35 url3)) else []);
                url4 = (if 35 \<in> set url3 then fst (partition_on 35 url3) else url3);
                query = (if 63 \<in> set url4 then snd (snd (partition_on 63 url4)) else []);
                url5 = (if 63 \<in> set url4 then fst (partition_on 63 url4) else url4)
            in if \<not> checknetloc T netloc then Inl InvalidNetloc
               else Inr \<lparr>sr_scheme = scheme, sr_netloc = netloc, sr_path = url5,
                         sr_query = query, sr_fragment = fragment\<rparr>))"

definition uses_netloc :: "pystr list" where
  "uses_netloc = map py
     [[], ''ftp'', ''http'', ''gopher'', ''nntp'', ''telnet'',
      ''imap'', ''wais'', ''file'', ''mms'', ''https'', ''shttp'',
      ''snews'', ''prospero'', ''rtsp'', ''rtsps'', ''rtspu'', ''rsync'',
      ''svn'', ''svn+ssh'', ''sftp'', ''nfs'', ''git'', ''git+ssh'',
      ''ws'', ''wss'']"

definition urlunsplit :: "pystr \<times> pystr \<times> pystr \<times> pystr \<times> pystr \<Rightarrow> pystr" where
  "urlunsplit components =
     (case components of (scheme, netloc, url, query, fragment) \<Rightarrow>
        (let url1 = (if netloc \<noteq> [] \<or> (scheme \<noteq> [] \<and> scheme \<in> set uses_netloc)
                        \<or> take 2 url = [47, 47]
                     then [47, 47] @ netloc
                            @ (if url \<noteq> [] \<and> take 1 url \<noteq> [47] then 47 # url else url)
                     else url);
             url2 = (if scheme \<noteq> [] then scheme @ [58] @ url1 else url1);
             url3 = (if query \<noteq> [] then url2 @ [63] @ query else url2)
         in if fragment \<noteq> [] then url3 @ [35] @ fragment else url3))"

definition urlunparse :: "pystr \<times> pystr \<times> pystr \<times> pystr \<times> pystr \<times> pystr \<Rightarrow> pystr" where
  "urlunparse components =
     (case components of (scheme, netloc, url, params, query, fragment) \<Rightarrow>
        urlunsplit (scheme, netloc,
                    (if params \<noteq> [] then url @ [59] @ params else url), query, fragment))"

subsection \<open>Percent-decoding and \<open>parse_qs\<close>\<close>

definition is_hexdig :: "nat \<Rightarrow> bool" where
  "is_hexdig c \<longleftrightarrow>
     (48 \<le> c \<and> c \<le> 57) \<or> (65 \<le> c \<and> c \<le> 70) \<or> (97 \<le> c \<and> c \<le> 102)"

definition hexval :: "nat \<Rightarrow> nat" where
  "hexval c = (if c \<le> 57 then c - 48 else if c \<le> 70 then c - 55 else c - 87)"

text \<open>
  \<open>unquote_to_bytes\<close> on the UTF-8 encoding of its argument: \<open>%\<close> and two hexadecimal
  digits become one octet, any other \<open>%\<close> stays.
\<close>

fun unquote_to_bytes :: "bytes \<Rightarrow> bytes" where
  "unquote_to_bytes (x # a # b # rest) =
     (if x = 37 \<and> is_hexdig a \<and> is_hexdig b
      then (16 * hexval a + hexval b) # unquote_to_bytes rest
      else x # unquote_to_bytes (a # b # rest))"
| "unquote_to_bytes s = s"

text \<open>
  \<open>unquote\<close> with \<open>encoding='utf-8'\<close> and \<open>errors='replace'\<close>. The regular expression
  \<open>_asciire\<close> cuts the string into runs of ASCII characters, which are percent-decoded
  and then decoded as UTF-8 (an ASCII run is its own UTF-8 encoding), and runs of other
  characters, which pass through. \<open>unquote_runs\<close> walks the string with the ASCII run
  read so far.
\<close>

fun unquote_runs :: "pystr \<Rightarrow> pystr \<Rightarrow> pystr" where
  "unquote_runs [] run = utf8_decode_replace (unquote_to_bytes run)"
| "unquote_runs (c # cs) run =
     (if c < 128 then unquote_runs cs (run @ [c])
      else utf8_decode_replace (unquote_to_bytes run) @ c # unquote_runs cs [])"

definition unquote :: "pystr \<Rightarrow> pystr" where
  "unquote s = (if 37 \<notin> set s then s else unquote_runs s [])"

definition unquote_plus :: "pystr \<Rightarrow> pystr" where
  "unquote_plus s = unquote (map (\<lambda>c. if c = 43 then 32 else c) s)"

text \<open>
  \<open>parse_qsl\<close> with \<open>keep_blank_values=False\<close>, \<open>strict_parsing=False\<close> and
  \<open>separator='&'\<close>: a field without a value is skipped.
\<close>

definition parse_field :: "pystr \<Rightarrow> (pystr \<times> pystr) list" where
  "parse_field name_value =
     (if name_value \<noteq> [] then
        (case partition_on 61 name_value of (name, has_eq, val) \<Rightarrow>
           if val \<noteq> [] then [(unquote_plus name, unquote_plus val)] else [])
      else [])"

definition parse_qsl :: "pystr \<Rightarrow> (pystr \<times> pystr) list" where
  "parse_qsl qs = (if qs = [] then [] else concat (map parse_field (split_on 38 qs)))"

text \<open>
  The \<open>dict\<close> that \<open>parse_qs\<close> fills keeps its keys in insertion order: an association
  list from each name to the list of its values.
\<close>

fun dict_append :: "(pystr \<times> pystr list) list \<Rightarrow> pystr \<Rightarrow> pystr \<Rightarrow> (pystr \<times> pystr list) list" where
  "dict_append [] name v = [(name, [v])]"
| "dict_append ((k, vs) # d) name v =
     (if k = name then (k, vs @ [v]) # d else (k, vs) # dict_append d name v)"

definition parse_qs :: "pystr \<Rightarrow> (pystr \<times> pystr list) list" where
  "parse_qs qs = foldl (\<lambda>parsed_result (name, v). dict_append parsed_result name v) [] (parse_qsl qs)"

section \<open>The objects the builder reads and writes\<close>

subsection \<open>HAR models\<close>

text \<open>
  Modelled from the spec: the classes \<open>Record\<close>, \<open>PostData\<close>, \<open>Request\<close>,
  \<open>ResponseContent\<close>, \<open>Response\<close>, \<open>Timings\<close>, \<open>Cache\<close> and \<open>Entry\<close> are declared in
  \<open>akita_har.models\<close>, which is not part of this repository. The spec's data model gives
  their fields. They are pydantic models, and iterating a pydantic model yields the
  pairs of a field's name and its value: unpacking a \<open>Record\<close> into two variables
  (\<open>for k, v in request_headers\<close>) binds the tuples \<open>('name', name)\<close> and
  \<open>('value', value)\<close>.
\<close>

record har_record =
  r_name :: pystr
  r_value :: pystr

record post_data =
  pd_mimeType :: pystr
  pd_text :: pystr

record har_request =
  req_method :: pystr
  req_url :: pystr
  req_httpVersion :: pystr
  req_cookies :: "har_record list"
  req_headers :: "har_record list"
  req_queryString :: "har_record list"
  req_postData :: "post_data option"
  req_headersSize :: nat
  req_bodySize :: nat

record response_content =
  content_size :: nat
  content_mimeType :: pystr
  content_text :: pystr

record har_response =
  resp_status :: int
  resp_statusText :: pystr
  resp_httpVersion :: pystr
  resp_cookies :: "har_record list"
  resp_headers :: "har_record list"
  resp_content :: response_content
  resp_redirectURL :: pystr
  resp_headersSize :: nat
  resp_bodySize :: nat

record timings =
  t_send :: real
  t_wait :: real
  t_receive :: real

text \<open>
  A \<open>datetime\<close>: its instant in microseconds since the epoch, and its \<open>tzinfo\<close>
  attribute, which is \<open>None\<close> or an object whose \<open>utcoffset()\<close> is \<open>None\<close> or an offset
  in seconds. Python calls a \<open>datetime\<close> aware when its \<open>tzinfo\<close> is set and the
  \<open>utcoffset()\<close> of that is not \<open>None\<close>, and naive otherwise.
\<close>

record tzinfo =
  utcoffset :: "int option"

record datetime =
  dt_instant :: int
  dt_tzinfo :: "tzinfo option"

definition is_naive :: "datetime \<Rightarrow> bool" where
  "is_naive d = (case dt_tzinfo d of None \<Rightarrow> True | Some tz \<Rightarrow> utcoffset tz = None)"

definition utc :: tzinfo where
  "utc = \<lparr>utcoffset = Some 0\<rparr>"

record entry =
  entry_startedDateTime :: datetime
  entry_time :: real
  entry_request :: har_request
  entry_response :: har_response
  entry_cache :: unit
  entry_timings :: timings

subsection \<open>Objects of the \<open>requests\<close> library\<close>

text \<open>
  Of a cookie only \<open>name\<close> and \<open>value\<close> are read. The body of a prepared request is
  \<open>None\<close>, a \<open>bytes\<close> (raw or JSON data) or a \<open>str\<close> (form data that \<open>requests\<close> has
  url-encoded). Header collections are \<open>CaseInsensitiveDict\<close>s: \<open>items()\<close> gives the
  pairs in insertion order, and a lookup compares lower-cased keys. A response is an
  object that reading changes: \<open>rs_content_consumed\<close> says whether its body has been
  read from the connection and cached (\<open>requests\<close> reads it before it returns the
  response, unless the call asked for \<open>stream=True\<close>), and \<open>response.text\<close> reads it
  when it has not been.
\<close>

record cookie =
  ck_name :: pystr
  ck_value :: pystr

datatype body = BytesBody bytes | StrBody pystr

record prepared_request =
  pr_method :: pystr
  pr_url :: pystr
  pr_headers :: "(pystr \<times> pystr) list option"
  pr_body :: "body option"
  pr_cookies :: "cookie list"

record response =
  rs_status_code :: int
  rs_reason :: pystr
  rs_headers :: "(pystr \<times> pystr) list"
  rs_cookies :: "cookie list"
  rs_text :: pystr
  rs_url :: pystr
  rs_content_consumed :: bool

text \<open>The response object after \<open>response.text\<close> (line 72) has been evaluated.\<close>

definition after_text :: "response \<Rightarrow> response" where
  "after_text r = r\<lparr>rs_content_consumed := True\<rparr>"

definition ci_get :: "(pystr \<times> pystr) list \<Rightarrow> pystr \<Rightarrow> pystr option" where
  "ci_get h key = map_of (map (\<lambda>(k, v). (lower k, v)) h) (lower key)"

text \<open>
  A \<open>requests.Request\<close> as \<open>TestClient.request\<close> constructs it: the method, the URL, and
  the other keyword arguments (\<open>headers\<close>, \<open>files\<close>, \<open>data or {}\<close>, \<open>json\<close>,
  \<open>params or {}\<close>, \<open>auth\<close>, \<open>cookies\<close>, \<open>hooks\<close>) as one value of a type left open.
\<close>

record 'o request =
  rq_method :: pystr
  rq_url :: pystr
  rq_kwargs :: 'o

text \<open>
  The library functions that are taken as parameters: the tables of \<open>urlsplit\<close>;
  \<open>Request.prepare\<close> of \<open>requests\<close> and \<open>urllib.parse.urljoin\<close>, each giving the name
  of the exception it raises or its result; \<open>str.isprintable\<close> and \<open>str.upper\<close> beyond
  ASCII, which are tables of the Unicode database.
\<close>

record 'o library = url_tables +
  prepare :: "'o request \<Rightarrow> string + prepared_request"
  urljoin :: "pystr \<Rightarrow> pystr \<Rightarrow> string + pystr"
  isprintable :: "codepoint \<Rightarrow> bool"
  unicode_upper :: "pystr \<Rightarrow> pystr"

text \<open>\<open>str.upper\<close>: on an ASCII string it changes the letters a to z only.\<close>

definition upper :: "('o, 'm) library_scheme \<Rightarrow> pystr \<Rightarrow> pystr" where
  "upper L s =
     (if list_all (\<lambda>c. c < 128) s then map ascii_upper s else unicode_upper L s)"

section \<open>\<open>requests_to_har_entry\<close>\<close>

definition server_protocol :: pystr where
  "server_protocol = py ''HTTP/1.1''"

text \<open>Line 48: the request headers as Records, in the order of \<open>items()\<close>.\<close>

definition request_headers_of :: "prepared_request \<Rightarrow> har_record list" where
  "request_headers_of prepared =
     (case pr_headers prepared of
        None \<Rightarrow> []
      | Some h \<Rightarrow> map (\<lambda>(k, v). \<lparr>r_name = k, r_value = v\<rparr>) h)"

text \<open>Line 50: \<open>None if prepared.body is None else prepared.body.decode("utf-7")\<close>.\<close>

definition decode_body :: "body option \<Rightarrow> error + pystr option" where
  "decode_body b =
     (case b of
        None \<Rightarrow> Inr None
      | Some (StrBody s) \<Rightarrow> Inl AttributeError
      | Some (BytesBody bs) \<Rightarrow>
          (case utf7_decode bs of Inl e \<Rightarrow> Inl e | Inr t \<Rightarrow> Inr (Some t)))"

text \<open>
  Line 66: \<open>None if not body else har.PostData(mimeType=prepared.headers['Content-Type'],
  text=body)\<close>; \<open>not body\<close> holds for \<open>None\<close> and for the empty string.
\<close>

definition post_data_of :: "prepared_request \<Rightarrow> pystr option \<Rightarrow> error + post_data option" where
  "post_data_of prepared body =
     (case body of
        None \<Rightarrow> Inr None
      | Some t \<Rightarrow>
          if t = [] then Inr None
          else
            (case pr_headers prepared of
               None \<Rightarrow> Inl TypeError
             | Some h \<Rightarrow>
                 (case ci_get h (py ''Content-Type'') of
                    None \<Rightarrow> Inl (KeyError (py ''content-type''))
                  | Some m \<Rightarrow> Inr (Some \<lparr>pd_mimeType = m, pd_text = t\<rparr>))))"

text \<open>
  Line 49 formats \<open>f'{k}: {v}'\<close> for \<open>k, v\<close> unpacked from each Record of line 48 (not
  from \<open>prepared.headers.items()\<close>, as line 74 does for the response), so \<open>k\<close> and \<open>v\<close>
  are the tuples \<open>('name', name)\<close> and \<open>('value', value)\<close> and the line is made of
  their \<open>str\<close>.
\<close>

definition request_header_line :: "(codepoint \<Rightarrow> bool) \<Rightarrow> har_record \<Rightarrow> pystr" where
  "request_header_line printable r =
     str_pair printable (py ''name'', r_name r) @ py '': ''
       @ str_pair printable (py ''value'', r_value r)"

text \<open>
  Lines 47 to 69, from the prepared request and its split URL; \<open>printable\<close> is
  \<open>str.isprintable\<close> on a character.
\<close>

definition build_request ::
  "(codepoint \<Rightarrow> bool) \<Rightarrow> prepared_request \<Rightarrow> split_result \<Rightarrow> error + har_request" where
  "build_request printable prepared url =
     (let query_string =
            [\<lparr>r_name = k, r_value = v\<rparr>. (k, vs) \<leftarrow> parse_qs (sr_query url), v \<leftarrow> vs];
          request_headers = request_headers_of prepared
      in case utf8_encode
                (join [10] (map (request_header_line printable) request_headers)) of
           Inl e \<Rightarrow> Inl e
         | Inr encoded_headers \<Rightarrow>
             (case decode_body (pr_body prepared) of
                Inl e \<Rightarrow> Inl e
              | Inr body \<Rightarrow>
                  (let cookies = map (\<lambda>c. \<lparr>r_name = ck_name c, r_value = ck_value c\<rparr>)
                                     (pr_cookies prepared);
                       har_entry_url =
                         urlunparse (sr_scheme url, sr_netloc url, sr_path url, [], [], [])
                   in case post_data_of prepared body of
                        Inl e \<Rightarrow> Inl e
                      | Inr postData \<Rightarrow>
                          Inr \<lparr>req_method = pr_method prepared,
                               req_url = har_entry_url,
                               req_httpVersion = server_protocol,
                               req_cookies = cookies,
                               req_headers = request_headers,
                               req_queryString = query_string,
                               req_postData = postData,
                               req_headersSize = length encoded_headers,
                               req_bodySize = (case body of None \<Rightarrow> 0
                                                          | Some t \<Rightarrow> length t)\<rparr>)))"

text \<open>Lines 72 to 85.\<close>

definition build_response :: "response \<Rightarrow> error + har_response" where
  "build_response response =
     (let response_content = rs_text response;
          response_content_type =
            (case ci_get (rs_headers response) (py ''Content-Type'') of
               None \<Rightarrow> []
             | Some m \<Rightarrow> m)
      in case utf8_encode
                (join [10] (map (\<lambda>(k, v). k @ py '': '' @ v) (rs_headers response))) of
           Inl e \<Rightarrow> Inl e
         | Inr encoded_response_headers \<Rightarrow>
             Inr \<lparr>resp_status = rs_status_code response,
                  resp_statusText = rs_reason response,
                  resp_httpVersion = server_protocol,
                  resp_cookies = map (\<lambda>c. \<lparr>r_name = ck_name c, r_value = ck_value c\<rparr>)
                                     (rs_cookies response),
                  resp_headers = map (\<lambda>(k, v). \<lparr>r_name = k, r_value = v\<rparr>)
                                     (rs_headers response),
                  resp_content = \<lparr>content_size = length response_content,
                                   content_mimeType = response_content_type,
                                   content_text = response_content\<rparr>,
                  resp_redirectURL = rs_url response,
                  resp_headersSize = length encoded_response_headers,
                  resp_bodySize = length response_content\<rparr>)"

text \<open>
  The builder. \<open>now\<close> is what \<open>datetime.now(timezone.utc)\<close> reads on line 89, in
  microseconds; the elapsed time is a number of milliseconds. Line 37 tests
  \<open>start.tzinfo\<close> only; the subtraction of line 89 raises \<open>TypeError\<close> for a start that
  has a \<open>tzinfo\<close> and is naive all the same.
\<close>

definition requests_to_har_entry ::
  "('o, 'm) library_scheme \<Rightarrow> int \<Rightarrow> datetime \<Rightarrow> 'o request \<Rightarrow> response \<Rightarrow> error + entry" where
  "requests_to_har_entry L now start request response =
     (if dt_tzinfo start = None then Inl InvalidTimestamp
      else
        (case prepare L request of
           Inl x \<Rightarrow> Inl (PrepareError x)
         | Inr prepared \<Rightarrow>
             (case urlsplit L (pr_url prepared) of
                Inl e \<Rightarrow> Inl e
              | Inr url \<Rightarrow>
                  (case build_request (isprintable L) prepared url of
                     Inl e \<Rightarrow> Inl e
                   | Inr har_request \<Rightarrow>
                       (case build_response response of
                          Inl e \<Rightarrow> Inl e
                        | Inr har_response \<Rightarrow>
                            if is_naive start then Inl NaiveDatetimeError
                            else
                              (let elapsed_time = real_of_int (now - dt_instant start) / 1000
                               in Inr \<lparr>entry_startedDateTime = start,
                                       entry_time = elapsed_time,
                                       entry_request = har_request,
                                       entry_response = har_response,
                                       entry_cache = (),
                                       entry_timings = \<lparr>t_send = 0, t_wait = elapsed_time,
                                                         t_receive = 0\<rparr>\<rparr>))))))"

section \<open>\<open>TestClient.request\<close>\<close>

text \<open>
  The arguments of one call: the method, the URL, and all the other keyword arguments
  as one value. The outside world of a client: the library, the successive readings of
  \<open>datetime.now(timezone.utc)\<close>, and what the successive calls of \<open>super().request\<close>
  return (a response) or raise (the name of an exception). Line 131 evaluates
  \<open>parse.urljoin\<close> before the clock is read and the delegate called, so an exception of
  \<open>urljoin\<close> ends the call there. The builder evaluates \<open>response.text\<close>, so the response
  object that the call returns is the delegate's after that.
\<close>

record 'o call =
  c_method :: pystr
  c_url :: pystr
  c_kwargs :: 'o

record 'o world = "'o library" +
  clock :: "nat \<Rightarrow> int"
  transport :: "nat \<Rightarrow> 'o call \<Rightarrow> string + response"

text \<open>
  Modelled from the spec: \<open>HarWriter\<close> is declared in \<open>akita_har\<close>, which is not part
  of this repository. The spec gives the trace sink as append-only, so \<open>har_writer\<close>
  is the list of the entries written so far, in order, and \<open>write_entry\<close> appends to it.
  The rest of the state that a call changes: the base URL of the client, and how often
  the clock has been read and \<open>super().request\<close> called.
\<close>

record state =
  base_url :: pystr
  har_writer :: "entry list"
  clock_reads :: nat
  requests_sent :: nat

definition TestClient_request ::
  "'o world \<Rightarrow> 'o call \<Rightarrow> state \<Rightarrow> (error + response) \<times> state" where
  "TestClient_request W c st =
     (case urljoin W (base_url st) (c_url c) of
        Inl x \<Rightarrow> (Inl (UrljoinError x), st)
      | Inr target \<Rightarrow>
          (let request = \<lparr>rq_method = upper W (c_method c),
                           rq_url = target,
                           rq_kwargs = c_kwargs c\<rparr>;
               start = \<lparr>dt_instant = clock W (clock_reads st), dt_tzinfo = Some utc\<rparr>;
               st1 = st\<lparr>clock_reads := clock_reads st + 1\<rparr>;
               st2 = st1\<lparr>requests_sent := requests_sent st1 + 1\<rparr>
           in case transport W (requests_sent st1) c of
                Inl x \<Rightarrow> (Inl (TransportError x), st2)
              | Inr response \<Rightarrow>
                  (case requests_to_har_entry W (clock W (clock_reads st2))
                          start request response of
                     Inl e \<Rightarrow> (Inl e, st2)
                   | Inr e \<Rightarrow>
                       (Inr (after_text response),
                        st2\<lparr>clock_reads := clock_reads st2 + 1,
                            har_writer := har_writer st2 @ [e]\<rparr>))))"

section \<open>The header block as the specification words it\<close>

text \<open>
  The specification's \<open>headersSize\<close>: one \<open>"key: value"\<close> line per header, in their
  natural order, joined with line breaks, and the number of octets of its UTF-8
  encoding, counted code point by code point.
\<close>

fun spec_header_block :: "(pystr \<times> pystr) list \<Rightarrow> pystr" where
  "spec_header_block [] = []"
| "spec_header_block [(k, v)] = k @ py '': '' @ v"
| "spec_header_block ((k, v) # h # hs) = k @ py '': '' @ v @ [10] @ spec_header_block (h # hs)"

definition spec_utf8_width :: "codepoint \<Rightarrow> nat" where
  "spec_utf8_width c =
     (if c < 0x80 then 1 else if c < 0x800 then 2 else if c < 0x10000 then 3 else 4)"

definition spec_utf8_length :: "pystr \<Rightarrow> nat" where
  "spec_utf8_length s = sum_list (map spec_utf8_width s)"

section \<open>Concrete runs\<close>

text \<open>
  A world for concrete runs. The keyword arguments of a call are the headers and the
  body that \<open>requests\<close> puts into the prepared request (for a body it adds
  \<open>Content-Length\<close>, for JSON also \<open>Content-Type\<close>); the prepared method and URL are
  those of the request; \<open>urljoin\<close> of a base URL without a path and an absolute path is
  their concatenation; \<open>isprintable\<close> is right up to U+00FF, and no run has a character
  beyond; the server answers every call with the same response.
\<close>

type_synonym kwargs = "(pystr \<times> pystr) list \<times> body option"

definition scenario_world :: "response \<Rightarrow> (nat \<Rightarrow> int) \<Rightarrow> kwargs world" where
  "scenario_world resp clk =
     \<lparr>nfkc = (\<lambda>s. s),
      bracketed_host_ok = (\<lambda>h. True),
      prepare = (\<lambda>rq. Inr \<lparr>pr_method = rq_method rq, pr_url = rq_url rq,
                             pr_headers = Some (fst (rq_kwargs rq)),
                             pr_body = snd (rq_kwargs rq), pr_cookies = []\<rparr>),
      urljoin = (\<lambda>base u. Inr (base @ u)),
      isprintable = (\<lambda>c. 161 \<le> c \<and> c \<le> 255 \<and> c \<noteq> 173),
      unicode_upper = (\<lambda>s. s),
      clock = clk,
      transport = (\<lambda>n c. Inr resp)\<rparr>"

text \<open>The body \<open>{"ok":true}\<close>; 34 is the double quote.\<close>

definition ok_body :: pystr where
  "ok_body = py ''{'' @ [34] @ py ''ok'' @ [34] @ py '':true}''"

definition ok_response :: response where
  "ok_response =
     \<lparr>rs_status_code = 200, rs_reason = py ''OK'',
      rs_headers = [(py ''Content-Type'', py ''application/json'')],
      rs_cookies = [], rs_text = ok_body, rs_url = py ''http://testserver/items'',
      rs_content_consumed = True\<rparr>"

text \<open>
  The response of the test server to \<open>GET /items?x=1\<close> as the client receives it, with
  the header names in lower case, and the same response when the call asked for
  \<open>stream=True\<close> and its body has not been read yet.
\<close>

definition items_response :: response where
  "items_response =
     \<lparr>rs_status_code = 200, rs_reason = py ''OK'',
      rs_headers = [(py ''content-length'', py ''11''),
                    (py ''content-type'', py ''application/json'')],
      rs_cookies = [], rs_text = ok_body, rs_url = py ''http://testserver/items?x=1'',
      rs_content_consumed = True\<rparr>"


definition ticking :: "nat \<Rightarrow> int" where
  "ticking n = 1000 * int n"

definition stepping_back :: "nat \<Rightarrow> int" where
  "stepping_back n = 5000 - 1000 * int n"

definition state0 :: state where
  "state0 = \<lparr>base_url = py ''http://testserver'', har_writer = [],
             clock_reads = 0, requests_sent = 0\<rparr>"

definition aware_start :: datetime where
  "aware_start = \<lparr>dt_instant = 0, dt_tzinfo = Some utc\<rparr>"

definition naive_start :: datetime where
  "naive_start = \<lparr>dt_instant = 0, dt_tzinfo = None\<rparr>"

text \<open>A start with a \<open>tzinfo\<close> whose \<open>utcoffset()\<close> is \<open>None\<close>: naive, by Python's word.\<close>

definition floating_start :: datetime where
  "floating_start = \<lparr>dt_instant = 0, dt_tzinfo = Some \<lparr>utcoffset = None\<rparr>\<rparr>"

definition get_request :: "pystr \<Rightarrow> (pystr \<times> pystr) list \<Rightarrow> kwargs request" where
  "get_request u hs = \<lparr>rq_method = py ''GET'', rq_url = u, rq_kwargs = (hs, None)\<rparr>"

definition post_request :: "(pystr \<times> pystr) list \<Rightarrow> bytes \<Rightarrow> kwargs request" where
  "post_request hs b =
     \<lparr>rq_method = py ''POST'', rq_url = py ''http://testserver/items'',
      rq_kwargs = (hs, Some (BytesBody b))\<rparr>"

text \<open>\<open>client.get("/items?x=1")\<close>.\<close>

definition items_call :: "kwargs call" where
  "items_call = \<lparr>c_method = py ''GET'', c_url = py ''/items?x=1'', c_kwargs = ([], None)\<rparr>"

text \<open>\<open>client.post("/items", data=b"abc")\<close>: a body and no \<open>Content-Type\<close>.\<close>

definition untyped_post_call :: "kwargs call" where
  "untyped_post_call =
     \<lparr>c_method = py ''POST'', c_url = py ''/items'',
      c_kwargs = ([(py ''Content-Length'', py ''3'')], Some (BytesBody (py ''abc'')))\<rparr>"

text \<open>The JSON body \<open>{"q": "a+-b"}\<close> of \<open>client.post("/items", json={"q": "a+-b"})\<close>.\<close>

definition plus_json_body :: bytes where
  "plus_json_body =
     py ''{'' @ [34] @ py ''q'' @ [34] @ py '': '' @ [34] @ py ''a+-b'' @ [34] @ py ''}''"

definition plus_json_text :: pystr where
  "plus_json_text =
     py ''{'' @ [34] @ py ''q'' @ [34] @ py '': '' @ [34] @ py ''a+b'' @ [34] @ py ''}''"

definition json_headers :: "(pystr \<times> pystr) list" where
  "json_headers = [(py ''Content-Length'', py ''13''), (py ''Content-Type'', py ''application/json'')]"

definition text_headers :: "(pystr \<times> pystr) list" where
  "text_headers = [(py ''Content-Length'', py ''1''), (py ''Content-Type'', py ''text/plain'')]"

section \<open>Facts about the library functions\<close>

lemma partition_on_fst_notin: "c \<notin> set (fst (partition_on c s))"
  by (auto simp: partition_on_def dest: set_takeWhileD)

lemma partition_on_fst_subset: "set (fst (partition_on c s)) \<subseteq> set s"
  by (auto simp: partition_on_def dest: set_takeWhileD)

lemma splitnetloc_fst_no_delim: "x \<in> set (fst (splitnetloc u)) \<Longrightarrow> \<not> is_netloc_delim x"
  by (auto simp: splitnetloc_def dest: set_takeWhileD)

lemma scheme_char_lower: "is_scheme_char c \<Longrightarrow> ascii_lower c \<noteq> 63 \<and> ascii_lower c \<noteq> 35"
  by (auto simp: is_scheme_char_def ascii_lower_def)

lemma urlsplit_fields:
  assumes "urlsplit T u = Inr r"
  shows "\<exists>pre url2 url3 url4.
           (sr_scheme r = [] \<or> (sr_scheme r = lower pre \<and> list_all is_scheme_char pre))
         \<and> (sr_netloc r = [] \<or> sr_netloc r = fst (splitnetloc url2))
         \<and> (sr_path r = fst (partition_on 63 url4) \<or> (sr_path r = url4 \<and> 63 \<notin> set url4))
         \<and> (url4 = fst (partition_on 35 url3) \<or> (url4 = url3 \<and> 35 \<notin> set url3))"
proof -
  define url1 where "url1 = filter (\<lambda>c. c \<noteq> 9 \<and> c \<noteq> 13 \<and> c \<noteq> 10) (dropWhile (\<lambda>c. c \<le> 32) u)"
  define pre where "pre = takeWhile (\<lambda>c. c \<noteq> 58) url1"
  define has_scheme where "has_scheme \<longleftrightarrow> (58 \<in> set url1 \<and> pre \<noteq> [] \<and> is_ascii_alpha (hd pre)
                          \<and> list_all is_scheme_char pre)"
  define scheme where "scheme = (if has_scheme then lower pre else [])"
  define url2 where "url2 = (if has_scheme then drop (length pre + 1) url1 else url1)"
  define has_netloc where "has_netloc \<longleftrightarrow> (take 2 url2 = [47, 47])"
  define netloc where "netloc = (if has_netloc then fst (splitnetloc url2) else [])"
  define url3 where "url3 = (if has_netloc then snd (splitnetloc url2) else url2)"
  define fragment where "fragment = (if 35 \<in> set url3 then snd (snd (partition_on 35 url3)) else [])"
  define url4 where "url4 = (if 35 \<in> set url3 then fst (partition_on 35 url3) else url3)"
  define query where "query = (if 63 \<in> set url4 then snd (snd (partition_on 63 url4)) else [])"
  define url5 where "url5 = (if 63 \<in> set url4 then fst (partition_on 63 url4) else url4)"
  have eq: "urlsplit T u =
     (if has_netloc \<and> (91 \<in> set netloc) \<noteq> (93 \<in> set netloc) then Inl InvalidIPv6URL
         else if has_netloc \<and> 91 \<in> set netloc \<and> 93 \<in> set netloc
                 \<and> \<not> bracketed_host_ok T
                       (fst (partition_on 93 (snd (snd (partition_on 91 netloc)))))
         then Inl InvalidBracketedHost
         else if \<not> checknetloc T netloc then Inl InvalidNetloc
               else Inr \<lparr>sr_scheme = scheme, sr_netloc = netloc, sr_path = url5,
                         sr_query = query, sr_fragment = fragment\<rparr>)"
    unfolding urlsplit_def Let_def url1_def pre_def has_scheme_def scheme_def url2_def
      has_netloc_def netloc_def url3_def fragment_def url4_def query_def url5_def
    by (rule refl)
  from assms eq have r: "r = \<lparr>sr_scheme = scheme, sr_netloc = netloc, sr_path = url5,
                         sr_query = query, sr_fragment = fragment\<rparr>"
    by (simp split: if_splits)
  have 1: "sr_scheme r = [] \<or> (sr_scheme r = lower pre \<and> list_all is_scheme_char pre)"
    by (simp add: r scheme_def has_scheme_def)
  have 2: "sr_netloc r = [] \<or> sr_netloc r = fst (splitnetloc url2)"
    by (simp add: r netloc_def)
  have 3: "sr_path r = fst (partition_on 63 url4) \<or> (sr_path r = url4 \<and> 63 \<notin> set url4)"
    by (simp add: r url5_def)
  have 4: "url4 = fst (partition_on 35 url3) \<or> (url4 = url3 \<and> 35 \<notin> set url3)"
    by (simp add: url4_def)
  from 1 2 3 4 show ?thesis by blast
qed

lemma urlsplit_clean:
  assumes "urlsplit T u = Inr r"
  shows "\<forall>x\<in>set (sr_scheme r). x \<noteq> 63 \<and> x \<noteq> 35"
    and "\<forall>x\<in>set (sr_netloc r). x \<noteq> 63 \<and> x \<noteq> 35"
    and "\<forall>x\<in>set (sr_path r). x \<noteq> 63 \<and> x \<noteq> 35"
proof -
  from urlsplit_fields[OF assms] obtain pre url2 url3 url4 where
    s: "sr_scheme r = [] \<or> (sr_scheme r = lower pre \<and> list_all is_scheme_char pre)" and
    n: "sr_netloc r = [] \<or> sr_netloc r = fst (splitnetloc url2)" and
    p: "sr_path r = fst (partition_on 63 url4) \<or> (sr_path r = url4 \<and> 63 \<notin> set url4)" and
    q: "url4 = fst (partition_on 35 url3) \<or> (url4 = url3 \<and> 35 \<notin> set url3)"
    by blast
  show "\<forall>x\<in>set (sr_scheme r). x \<noteq> 63 \<and> x \<noteq> 35"
    using s scheme_char_lower by (fastforce simp: lower_def list_all_iff)
  show "\<forall>x\<in>set (sr_netloc r). x \<noteq> 63 \<and> x \<noteq> 35"
    using n by (auto simp: is_netloc_delim_def dest!: splitnetloc_fst_no_delim)
  have u4: "35 \<notin> set url4"
    using q partition_on_fst_notin[of 35 url3] by auto
  have sub: "set (sr_path r) \<subseteq> set url4"
    using p partition_on_fst_subset[of 63 url4] by auto
  have "63 \<notin> set (sr_path r)"
    using p partition_on_fst_notin[of 63 url4] by auto
  with u4 sub show "\<forall>x\<in>set (sr_path r). x \<noteq> 63 \<and> x \<noteq> 35" by auto
qed

lemma urlunparse_clean:
  assumes "\<forall>x\<in>set s. x \<noteq> 63 \<and> x \<noteq> 35" "\<forall>x\<in>set n. x \<noteq> 63 \<and> x \<noteq> 35" "\<forall>x\<in>set p. x \<noteq> 63 \<and> x \<noteq> 35"
  shows "63 \<notin> set (urlunparse (s, n, p, [], [], [])) \<and> 35 \<notin> set (urlunparse (s, n, p, [], [], []))"
  using assms by (auto simp: urlunparse_def urlunsplit_def Let_def)

lemma utf8_decode_replace_nonempty: "bs \<noteq> [] \<Longrightarrow> utf8_decode_replace bs \<noteq> []"
  by (cases bs) (auto split: list.splits)

lemma unquote_to_bytes_nonempty: "s \<noteq> [] \<Longrightarrow> unquote_to_bytes s \<noteq> []"
  by (induction s rule: unquote_to_bytes.induct) auto

lemma unquote_runs_nonempty: "cs \<noteq> [] \<or> run \<noteq> [] \<Longrightarrow> unquote_runs cs run \<noteq> []"
proof (induction cs arbitrary: run)
  case Nil
  then show ?case
    by (simp add: utf8_decode_replace_nonempty unquote_to_bytes_nonempty)
next
  case (Cons c cs)
  show ?case
  proof (cases "c < 128")
    case True
    with Cons.IH[of "run @ [c]"] show ?thesis by simp
  next
    case False
    then show ?thesis by simp
  qed
qed

lemma unquote_plus_nonempty: "s \<noteq> [] \<Longrightarrow> unquote_plus s \<noteq> []"
  by (simp add: unquote_plus_def unquote_def unquote_runs_nonempty)

lemma parse_field_values: "(k, v) \<in> set (parse_field f) \<Longrightarrow> v \<noteq> []"
proof -
  assume a: "(k, v) \<in> set (parse_field f)"
  define val where "val = drop 1 (dropWhile (\<lambda>x. x \<noteq> 61) f)"
  have "parse_field f =
          (if f \<noteq> [] \<and> val \<noteq> []
           then [(unquote_plus (takeWhile (\<lambda>x. x \<noteq> 61) f), unquote_plus val)] else [])"
    by (simp add: parse_field_def partition_on_def val_def)
  with a have "val \<noteq> []" and "v = unquote_plus val"
    by (auto split: if_splits)
  then show "v \<noteq> []"
    by (simp add: unquote_plus_nonempty)
qed

lemma parse_qsl_values: "(k, v) \<in> set (parse_qsl qs) \<Longrightarrow> v \<noteq> []"
  by (auto simp: parse_qsl_def split: if_splits dest: parse_field_values)

lemma dict_append_values:
  assumes "\<forall>(k, vs)\<in>set d. \<forall>x\<in>set vs. x \<noteq> []" and "v \<noteq> []"
  shows "\<forall>(k, vs)\<in>set (dict_append d name v). \<forall>x\<in>set vs. x \<noteq> []"
  using assms by (induction d name v rule: dict_append.induct) auto

lemma foldl_dict_append_values:
  assumes "\<forall>(k, vs)\<in>set d. \<forall>x\<in>set vs. x \<noteq> []" and "\<forall>(k, v)\<in>set ps. v \<noteq> []"
  shows "\<forall>(k, vs)\<in>set (foldl (\<lambda>parsed_result (name, v). dict_append parsed_result name v) d ps).
           \<forall>x\<in>set vs. x \<noteq> []"
  using assms
proof (induction ps arbitrary: d)
  case Nil
  then show ?case by simp
next
  case (Cons p ps)
  obtain name v where p: "p = (name, v)" by (cases p)
  with Cons.prems have v: "v \<noteq> []" by auto
  have "\<forall>(k, vs)\<in>set (dict_append d name v). \<forall>x\<in>set vs. x \<noteq> []"
    using dict_append_values[OF Cons.prems(1) v] .
  moreover have "\<forall>(k, v)\<in>set ps. v \<noteq> []" using Cons.prems(2) by auto
  ultimately show ?case using Cons.IH p by simp
qed

lemma parse_qs_values: "(k, vs) \<in> set (parse_qs qs) \<Longrightarrow> x \<in> set vs \<Longrightarrow> x \<noteq> []"
proof -
  have "\<forall>(k, vs)\<in>set (parse_qs qs). \<forall>x\<in>set vs. x \<noteq> []"
    unfolding parse_qs_def
    by (rule foldl_dict_append_values) (auto dest: parse_qsl_values)
  then show "(k, vs) \<in> set (parse_qs qs) \<Longrightarrow> x \<in> set vs \<Longrightarrow> x \<noteq> []" by auto
qed

lemma parse_qs_example1: "parse_qs (py ''a=1&a=2&b=3'') = [(py ''a'', [py ''1'', py ''2'']), (py ''b'', [py ''3''])]"
  by (simp add: parse_qs_def parse_qsl_def parse_field_def partition_on_def unquote_plus_def unquote_def py_def)

lemma parse_qs_example2: "parse_qs (py ''a=&b=1'') = [(py ''b'', [py ''1''])]"
  by (simp add: parse_qs_def parse_qsl_def parse_field_def partition_on_def unquote_plus_def unquote_def py_def)

section \<open>Facts about the builder\<close>

lemma requests_to_har_entry_Inr:
  assumes "requests_to_har_entry L now start request response = Inr e"
  obtains prepared url where
    "dt_tzinfo start \<noteq> None"
    "prepare L request = Inr prepared"
    "urlsplit L (pr_url prepared) = Inr url"
    "build_request (isprintable L) prepared url = Inr (entry_request e)"
    "build_response response = Inr (entry_response e)"
    "entry_startedDateTime e = start"
    "\<not> is_naive start"
  using assms
  by (auto simp: requests_to_har_entry_def Let_def split: if_splits sum.splits)

lemma build_request_Inr:
  assumes "build_request printable prepared url = Inr rq"
  obtains enc body where
    "utf8_encode (join [10] (map (request_header_line printable)
        (request_headers_of prepared))) = Inr enc"
    "decode_body (pr_body prepared) = Inr body"
    "post_data_of prepared body = Inr (req_postData rq)"
    "req_headersSize rq = length enc"
    "req_bodySize rq = (case body of None \<Rightarrow> 0 | Some t \<Rightarrow> length t)"
    "req_url rq = urlunparse (sr_scheme url, sr_netloc url, sr_path url, [], [], [])"
    "req_queryString rq =
       [\<lparr>r_name = k, r_value = v\<rparr>. (k, vs) \<leftarrow> parse_qs (sr_query url), v \<leftarrow> vs]"
    "req_method rq = pr_method prepared"
  using assms
  by (auto simp: build_request_def Let_def split: sum.splits)

lemma build_response_Inr:
  assumes "build_response response = Inr rs"
  shows "resp_bodySize rs = length (rs_text response)"
    and "resp_content rs = \<lparr>content_size = length (rs_text response),
            content_mimeType = (case ci_get (rs_headers response) (py ''Content-Type'') of
               None \<Rightarrow> [] | Some m \<Rightarrow> m),
            content_text = rs_text response\<rparr>"
    and "resp_status rs = rs_status_code response"
  using assms
  by (auto simp: build_response_def Let_def split: sum.splits)

text \<open>The definitions that a concrete run unfolds.\<close>

lemmas url_defs = urlsplit_def Let_def splitnetloc_def is_netloc_delim_def partition_on_def
      checknetloc_def lower_def ascii_lower_def is_ascii_alpha_def is_scheme_char_def
      urlunparse_def urlunsplit_def uses_netloc_def
lemmas qs_defs = parse_qs_def parse_qsl_def parse_field_def unquote_plus_def unquote_def
lemmas build_defs = requests_to_har_entry_def build_request_def build_response_def
      request_headers_of_def decode_body_def post_data_of_def ci_get_def server_protocol_def
      is_surrogate_def utf8_bytes_def is_naive_def utc_def
lemmas repr_defs = request_header_line_def str_pair_def repr_str_def repr_quote_def
      repr_char_def hexdigit_def
lemmas scenario_defs = scenario_world_def aware_start_def get_request_def ok_response_def
      ok_body_def ticking_def

subsection \<open>Which errors a stage can raise\<close>

lemma utf7_loop_isl:
  "isl (utf7_loop inShift bits buf sur out s) \<Longrightarrow>
   projl (utf7_loop inShift bits buf sur out s) = UnicodeDecodeError"
proof (induction inShift bits buf sur out s rule: utf7_loop.induct)
  case (1 inShift bits buf sur out)
  then show ?case by (auto split: if_splits)
next
  case (2 inShift bits buf sur out ch s)
  show ?case
  proof (cases inShift)
    case True
    show ?thesis
    proof (cases "is_base64 ch")
      case b: True
      show ?thesis
      proof (cases "bits + 6 \<ge> 16")
        case c: True
        with b True "2.prems" "2.IH"(1,2,3) show ?thesis
          by (simp add: Let_def split: if_splits)
      next
        case c: False
        with b True "2.prems" "2.IH"(4) show ?thesis
          by (simp add: Let_def split: if_splits)
      qed
    next
      case b: False
      with True "2.prems" "2.IH"(5,6) show ?thesis
        by (auto simp: Let_def split: if_splits)
    qed
  next
    case False
    show ?thesis
    proof (cases "ch = 43")
      case p: True
      with False "2.prems" "2.IH"(7,8,9) show ?thesis
        by (simp split: if_splits list.splits)
    next
      case p: False
      with False "2.prems" "2.IH"(10) show ?thesis
        by (simp split: if_splits)
    qed
  qed
qed

lemma utf7_loop_error: "utf7_loop inShift bits buf sur out s = Inl e \<Longrightarrow> e = UnicodeDecodeError"
  using utf7_loop_isl[of inShift bits buf sur out s] by simp


lemma utf8_encode_error: "utf8_encode s = Inl e \<Longrightarrow> e = UnicodeEncodeError"
  by (induction s) (auto split: if_splits sum.splits)

lemma decode_body_error:
  "decode_body b = Inl e \<Longrightarrow> e = AttributeError \<or> e = UnicodeDecodeError"
  by (auto simp: decode_body_def utf7_decode_def split: option.splits body.splits sum.splits
      dest: utf7_loop_error)

lemma post_data_of_error:
  "post_data_of p b = Inl e \<Longrightarrow> e = TypeError \<or> e = KeyError (py ''content-type'')"
  by (auto simp: post_data_of_def split: option.splits if_splits)

lemma build_request_error: "build_request pr p u = Inl e \<Longrightarrow> e \<noteq> InvalidTimestamp"
  by (auto simp: build_request_def Let_def split: sum.splits
      dest: utf8_encode_error decode_body_error post_data_of_error)

lemma build_response_error: "build_response r = Inl e \<Longrightarrow> e \<noteq> InvalidTimestamp"
  by (auto simp: build_response_def Let_def split: sum.splits dest: utf8_encode_error)

lemma urlsplit_error: "urlsplit T u = Inl e \<Longrightarrow> e \<noteq> InvalidTimestamp"
  unfolding urlsplit_def Let_def
  by (simp split: if_splits)

section \<open>The claims\<close>

text \<open>
  Claim C1. Whenever the URL of the prepared request has the query string
  \<open>a=1&a=2&b=3\<close> and the builder returns an Entry, its \<open>request.queryString\<close> is the
  three Records (a,1), (a,2), (b,3), and its \<open>request.url\<close> contains neither \<open>?\<close>
  (63) nor \<open>#\<close> (35).
\<close>

theorem query_string_and_clean_url:
  assumes "requests_to_har_entry L now start request response = Inr e"
    and "prepare L request = Inr prepared"
    and "urlsplit L (pr_url prepared) = Inr u"
    and "sr_query u = py ''a=1&a=2&b=3''"
  shows "req_queryString (entry_request e) =
           [\<lparr>r_name = py ''a'', r_value = py ''1''\<rparr>,
            \<lparr>r_name = py ''a'', r_value = py ''2''\<rparr>,
            \<lparr>r_name = py ''b'', r_value = py ''3''\<rparr>]
         \<and> 63 \<notin> set (req_url (entry_request e))
         \<and> 35 \<notin> set (req_url (entry_request e))"
proof -
  from assms(1) obtain prepared' url where
    p: "prepare L request = Inr prepared'" and
    s: "urlsplit L (pr_url prepared') = Inr url" and
    b: "build_request (isprintable L) prepared' url = Inr (entry_request e)"
    by (rule requests_to_har_entry_Inr)
  from p assms(2) have [simp]: "prepared' = prepared" by simp
  from s assms(3) have [simp]: "url = u" by simp
  from b obtain enc body where
    url: "req_url (entry_request e) = urlunparse (sr_scheme u, sr_netloc u, sr_path u, [], [], [])" and
    qs: "req_queryString (entry_request e) =
       [\<lparr>r_name = k, r_value = v\<rparr>. (k, vs) \<leftarrow> parse_qs (sr_query u), v \<leftarrow> vs]"
    by (rule build_request_Inr) simp
  have "req_queryString (entry_request e) =
           [\<lparr>r_name = py ''a'', r_value = py ''1''\<rparr>,
            \<lparr>r_name = py ''a'', r_value = py ''2''\<rparr>,
            \<lparr>r_name = py ''b'', r_value = py ''3''\<rparr>]"
    by (simp add: qs assms(4) parse_qs_example1)
  moreover have "63 \<notin> set (req_url (entry_request e)) \<and> 35 \<notin> set (req_url (entry_request e))"
    unfolding url
    by (rule urlunparse_clean) (rule urlsplit_clean[OF assms(3)])+
  ultimately show ?thesis by simp
qed

theorem query_string_and_clean_url_witness:
  "\<not> isl (requests_to_har_entry (scenario_world ok_response ticking) 2000 aware_start
          (get_request (py ''http://testserver/items?a=1&a=2&b=3#top'') []) ok_response)
   \<and> req_queryString (entry_request (projr
        (requests_to_har_entry (scenario_world ok_response ticking) 2000 aware_start
          (get_request (py ''http://testserver/items?a=1&a=2&b=3#top'') []) ok_response))) =
           [\<lparr>r_name = py ''a'', r_value = py ''1''\<rparr>,
            \<lparr>r_name = py ''a'', r_value = py ''2''\<rparr>,
            \<lparr>r_name = py ''b'', r_value = py ''3''\<rparr>]
   \<and> 63 \<notin> set (req_url (entry_request (projr
        (requests_to_har_entry (scenario_world ok_response ticking) 2000 aware_start
          (get_request (py ''http://testserver/items?a=1&a=2&b=3#top'') []) ok_response))))
   \<and> 35 \<notin> set (req_url (entry_request (projr
        (requests_to_har_entry (scenario_world ok_response ticking) 2000 aware_start
          (get_request (py ''http://testserver/items?a=1&a=2&b=3#top'') []) ok_response))))"
proof -
  let ?W = "scenario_world ok_response ticking"
  let ?rq = "get_request (py ''http://testserver/items?a=1&a=2&b=3#top'') []"
  have "\<exists>e. requests_to_har_entry ?W 2000 aware_start ?rq ok_response = Inr e"
    by (simp add: url_defs qs_defs build_defs scenario_defs py_def)
  then obtain e where e: "requests_to_har_entry ?W 2000 aware_start ?rq ok_response = Inr e" ..
  have p: "prepare ?W ?rq = Inr \<lparr>pr_method = py ''GET'',
              pr_url = py ''http://testserver/items?a=1&a=2&b=3#top'',
              pr_headers = Some [], pr_body = None, pr_cookies = []\<rparr>"
    by (simp add: scenario_world_def get_request_def)
  have s: "urlsplit ?W (pr_url \<lparr>pr_method = py ''GET'',
              pr_url = py ''http://testserver/items?a=1&a=2&b=3#top'',
              pr_headers = Some [], pr_body = None, pr_cookies = []\<rparr>) =
           Inr \<lparr>sr_scheme = py ''http'', sr_netloc = py ''testserver'', sr_path = py ''/items'',
          sr_query = py ''a=1&a=2&b=3'', sr_fragment = py ''top''\<rparr>"
    by (simp add: url_defs py_def)
  show ?thesis
    using query_string_and_clean_url[OF e p s] e by simp
qed

text \<open>
  Claim C4, amended. A start whose \<open>tzinfo\<close> is \<open>None\<close> makes the builder fail with
  \<open>InvalidTimestamp\<close>, whatever the library, the request and the response are (also
  when \<open>prepare\<close> itself would raise), so no Entry is produced; with a start that has a
  \<open>tzinfo\<close> the builder never fails with \<open>InvalidTimestamp\<close>.
\<close>

theorem naive_start_rejected:
  "(dt_tzinfo start = None \<longrightarrow>
      requests_to_har_entry L now start request response = Inl InvalidTimestamp)
   \<and> (dt_tzinfo start \<noteq> None \<longrightarrow>
      requests_to_har_entry L now start request response \<noteq> Inl InvalidTimestamp)"
proof (intro conjI impI)
  assume "dt_tzinfo start = None"
  then show "requests_to_har_entry L now start request response = Inl InvalidTimestamp"
    by (simp add: requests_to_har_entry_def)
next
  assume a: "dt_tzinfo start \<noteq> None"
  show "requests_to_har_entry L now start request response \<noteq> Inl InvalidTimestamp"
  proof
    assume "requests_to_har_entry L now start request response = Inl InvalidTimestamp"
    with a show False
      by (auto simp: requests_to_har_entry_def Let_def split: sum.splits if_splits
          dest: urlsplit_error build_request_error build_response_error)
  qed
qed

theorem naive_start_rejected_witness:
  "dt_tzinfo naive_start = None
   \<and> requests_to_har_entry (scenario_world ok_response ticking) 2000 naive_start
        (get_request (py ''http://testserver/items'') []) ok_response = Inl InvalidTimestamp
   \<and> dt_tzinfo aware_start \<noteq> None
   \<and> requests_to_har_entry (scenario_world ok_response ticking) 2000 aware_start
        (get_request (py ''http://testserver/items'') []) ok_response \<noteq> Inl InvalidTimestamp"
  using naive_start_rejected[of naive_start "scenario_world ok_response ticking" 2000
          "get_request (py ''http://testserver/items'') []" ok_response]
        naive_start_rejected[of aware_start "scenario_world ok_response ticking" 2000
          "get_request (py ''http://testserver/items'') []" ok_response]
  by (simp add: naive_start_def aware_start_def)

text \<open>
  The claim as stated fails for a start that has a \<open>tzinfo\<close> whose \<open>utcoffset()\<close> is
  \<open>None\<close>: it is naive, it passes the test of line 37, the request and the response are
  built, and the subtraction of line 89 raises \<open>TypeError\<close>, not \<open>InvalidTimestamp\<close>.
\<close>

theorem floating_start_counterexample:
  "is_naive floating_start
   \<and> requests_to_har_entry (scenario_world ok_response ticking) 2000 floating_start
        (get_request (py ''http://testserver/items'') []) ok_response = Inl NaiveDatetimeError
   \<and> requests_to_har_entry (scenario_world ok_response ticking) 2000 floating_start
        (get_request (py ''http://testserver/items'') []) ok_response \<noteq> Inl InvalidTimestamp"
  by (simp add: url_defs qs_defs build_defs repr_defs scenario_defs py_def floating_start_def)

text \<open>
  Claim C9. In every Entry that the builder returns, \<open>response.bodySize\<close> equals
  \<open>response.content.size\<close>, and both are the length of the decoded response text.
\<close>

theorem response_sizes_agree:
  assumes "requests_to_har_entry L now start request response = Inr e"
  shows "resp_bodySize (entry_response e) = content_size (resp_content (entry_response e))
         \<and> content_size (resp_content (entry_response e)) = length (rs_text response)"
proof -
  from assms have b: "build_response response = Inr (entry_response e)"
    by (rule requests_to_har_entry_Inr)
  show ?thesis
    by (simp add: build_response_Inr[OF b])
qed

theorem response_sizes_agree_witness:
  "\<not> isl (requests_to_har_entry (scenario_world ok_response ticking) 2000 aware_start
          (get_request (py ''http://testserver/items'') []) ok_response)
   \<and> resp_bodySize (entry_response (projr
         (requests_to_har_entry (scenario_world ok_response ticking) 2000 aware_start
           (get_request (py ''http://testserver/items'') []) ok_response))) = 11
   \<and> content_size (resp_content (entry_response (projr
         (requests_to_har_entry (scenario_world ok_response ticking) 2000 aware_start
           (get_request (py ''http://testserver/items'') []) ok_response)))) = 11
   \<and> length (rs_text ok_response) = 11"
proof -
  let ?W = "scenario_world ok_response ticking"
  let ?rq = "get_request (py ''http://testserver/items'') []"
  have "\<exists>e. requests_to_har_entry ?W 2000 aware_start ?rq ok_response = Inr e"
    by (simp add: url_defs qs_defs build_defs scenario_defs py_def)
  then obtain e where e: "requests_to_har_entry ?W 2000 aware_start ?rq ok_response = Inr e" ..
  have "length (rs_text ok_response) = 11"
    by (simp add: ok_response_def ok_body_def py_def)
  with response_sizes_agree[OF e] e show ?thesis by simp
qed

text \<open>
  Claim C10. In every Entry that the builder returns, every Record of
  \<open>request.queryString\<close> has a non-empty value: a parameter with an empty value, as
  \<open>a\<close> in \<open>?a=&b=1\<close>, is left out.
\<close>

theorem query_values_nonempty:
  assumes "requests_to_har_entry L now start request response = Inr e"
  shows "\<forall>r\<in>set (req_queryString (entry_request e)). r_value r \<noteq> []"
proof -
  from assms obtain prepared url where
    b: "build_request (isprintable L) prepared url = Inr (entry_request e)"
    by (rule requests_to_har_entry_Inr)
  from b have qs: "req_queryString (entry_request e) =
       [\<lparr>r_name = k, r_value = v\<rparr>. (k, vs) \<leftarrow> parse_qs (sr_query url), v \<leftarrow> vs]"
    by (rule build_request_Inr)
  show ?thesis
    unfolding qs by (auto dest: parse_qs_values)
qed

theorem query_values_nonempty_witness:
  "\<not> isl (requests_to_har_entry (scenario_world ok_response ticking) 2000 aware_start
          (get_request (py ''http://testserver/items?a=&b=1'') []) ok_response)
   \<and> req_queryString (entry_request (projr
         (requests_to_har_entry (scenario_world ok_response ticking) 2000 aware_start
           (get_request (py ''http://testserver/items?a=&b=1'') []) ok_response)))
       = [\<lparr>r_name = py ''b'', r_value = py ''1''\<rparr>]
   \<and> r_value (hd (req_queryString (entry_request (projr
         (requests_to_har_entry (scenario_world ok_response ticking) 2000 aware_start
           (get_request (py ''http://testserver/items?a=&b=1'') []) ok_response)))))
       \<noteq> []"
proof -
  let ?W = "scenario_world ok_response ticking"
  let ?rq = "get_request (py ''http://testserver/items?a=&b=1'') []"
  have "\<exists>e. requests_to_har_entry ?W 2000 aware_start ?rq ok_response = Inr e
          \<and> req_queryString (entry_request e) = [\<lparr>r_name = py ''b'', r_value = py ''1''\<rparr>]"
    by (simp add: url_defs qs_defs build_defs scenario_defs py_def)
  then obtain e where e: "requests_to_har_entry ?W 2000 aware_start ?rq ok_response = Inr e"
    and q: "req_queryString (entry_request e) = [\<lparr>r_name = py ''b'', r_value = py ''1''\<rparr>]"
    by blast
  from query_values_nonempty[OF e] e q show ?thesis by simp
qed

text \<open>
  Claim C2, at a request with the headers \<open>Accept: */*\<close> and \<open>X-Name: Zo\<close> and U+00EB.
  The header block of the claim, two \<open>"key: value"\<close> lines joined with a line break, has
  24 octets in UTF-8. Line 49 unpacks the Records of line 48 instead of the header
  items, so it formats the tuples \<open>('name', 'Accept')\<close> and \<open>('value', '*/*')\<close> and so
  on, and the Entry has \<open>headersSize\<close> 74.
\<close>

theorem request_headers_size_counts_tuples:
  "\<not> isl (requests_to_har_entry (scenario_world ok_response ticking) 2000 aware_start
          (get_request (py ''http://testserver/items'')
             [(py ''Accept'', py ''*/*''), (py ''X-Name'', py ''Zo'' @ [235])]) ok_response)
   \<and> req_headersSize (entry_request (projr
         (requests_to_har_entry (scenario_world ok_response ticking) 2000 aware_start
           (get_request (py ''http://testserver/items'')
             [(py ''Accept'', py ''*/*''), (py ''X-Name'', py ''Zo'' @ [235])]) ok_response))) = 74
   \<and> spec_utf8_length (spec_header_block
         [(py ''Accept'', py ''*/*''), (py ''X-Name'', py ''Zo'' @ [235])]) = 24"
proof -
  have "spec_utf8_length (spec_header_block
         [(py ''Accept'', py ''*/*''), (py ''X-Name'', py ''Zo'' @ [235])]) = 24"
    by (simp add: spec_utf8_length_def spec_utf8_width_def py_def)
  moreover have "\<exists>e. requests_to_har_entry (scenario_world ok_response ticking) 2000 aware_start
          (get_request (py ''http://testserver/items'')
             [(py ''Accept'', py ''*/*''), (py ''X-Name'', py ''Zo'' @ [235])]) ok_response = Inr e
        \<and> req_headersSize (entry_request e) = 74"
    by (simp add: url_defs qs_defs build_defs repr_defs scenario_defs py_def)
  ultimately show ?thesis by auto
qed

text \<open>
  Claim C3, at the JSON body \<open>{"q": "a+-b"}\<close> of 13 octets: the builder decodes the body
  as UTF-7, where \<open>+-\<close> stands for \<open>+\<close>, so the Entry has \<open>bodySize\<close> 12 and a
  \<open>postData.text\<close> that is not the body.
\<close>

theorem plus_in_body_not_round_tripped:
  "\<not> isl (requests_to_har_entry (scenario_world ok_response ticking) 2000 aware_start
          (post_request json_headers plus_json_body) ok_response)
   \<and> req_bodySize (entry_request (projr
         (requests_to_har_entry (scenario_world ok_response ticking) 2000 aware_start
           (post_request json_headers plus_json_body) ok_response))) = 12
   \<and> length plus_json_body = 13
   \<and> req_postData (entry_request (projr
         (requests_to_har_entry (scenario_world ok_response ticking) 2000 aware_start
           (post_request json_headers plus_json_body) ok_response)))
       = Some \<lparr>pd_mimeType = py ''application/json'', pd_text = plus_json_text\<rparr>
   \<and> plus_json_text \<noteq> plus_json_body"
  by (simp add: url_defs qs_defs build_defs repr_defs scenario_defs py_def post_request_def
        json_headers_def plus_json_body_def plus_json_text_def utf7_decode_def
        decode_direct_def is_base64_def)

text \<open>
  Claim C5, at the body \<open>+\<close> of one octet sent with a \<open>Content-Type\<close>: as UTF-7 it
  decodes to the empty string, so the Entry has no \<open>postData\<close> although the request
  carries a non-empty body.
\<close>

theorem lone_plus_body_has_no_post_data:
  "pr_body (projr (prepare (scenario_world ok_response ticking)
        (post_request text_headers (py ''+'')))) = Some (BytesBody [43])
   \<and> \<not> isl (requests_to_har_entry (scenario_world ok_response ticking) 2000 aware_start
          (post_request text_headers (py ''+'')) ok_response)
   \<and> req_postData (entry_request (projr
         (requests_to_har_entry (scenario_world ok_response ticking) 2000 aware_start
           (post_request text_headers (py ''+'')) ok_response))) = None"
  by (simp add: url_defs qs_defs build_defs repr_defs scenario_defs py_def post_request_def
        text_headers_def utf7_decode_def decode_direct_def is_base64_def)

section \<open>Facts about the client\<close>

lemmas client_defs = TestClient_request_def upper_def ascii_upper_def after_text_def


lemma build_response_after_text: "build_response (after_text r) = build_response r"
  by (simp add: build_response_def after_text_def Let_def split: sum.splits)

lemma TestClient_request_Inr:
  assumes "TestClient_request W c st = (Inr r, st')"
  obtains e target resp where
    "urljoin W (base_url st) (c_url c) = Inr target"
    "transport W (requests_sent st) c = Inr resp"
    "r = after_text resp"
    "requests_to_har_entry W (clock W (clock_reads st + 1))
       \<lparr>dt_instant = clock W (clock_reads st), dt_tzinfo = Some utc\<rparr>
       \<lparr>rq_method = upper W (c_method c), rq_url = target, rq_kwargs = c_kwargs c\<rparr>
       resp = Inr e"
    "har_writer st' = har_writer st @ [e]"
    "clock_reads st' = clock_reads st + 2"
    "requests_sent st' = requests_sent st + 1"
    "base_url st' = base_url st"
  using assms
  by (auto simp: TestClient_request_def Let_def split: sum.splits)


lemma untyped_post_run:
  "TestClient_request (scenario_world ok_response clk) untyped_post_call state0 =
     (Inl (KeyError (py ''content-type'')),
      \<lparr>base_url = py ''http://testserver'', har_writer = [],
       clock_reads = 1, requests_sent = 1\<rparr>)"
  by (simp add: client_defs url_defs qs_defs build_defs repr_defs scenario_defs py_def
        untyped_post_call_def state0_def utf7_decode_def decode_direct_def is_base64_def)

lemma items_run_from:
  assumes "base_url st = py ''http://testserver''"
  shows "\<exists>e. fst (TestClient_request (scenario_world ok_response clk) items_call st)
           = Inr ok_response
     \<and> har_writer (snd (TestClient_request (scenario_world ok_response clk) items_call st))
           = har_writer st @ [e]
     \<and> base_url (snd (TestClient_request (scenario_world ok_response clk) items_call st))
           = base_url st
     \<and> clock_reads (snd (TestClient_request (scenario_world ok_response clk) items_call st))
           = clock_reads st + 2
     \<and> content_size (resp_content (entry_response e)) = 11
     \<and> entry_startedDateTime e = \<lparr>dt_instant = clk (clock_reads st), dt_tzinfo = Some utc\<rparr>"
  using assms
  by (simp add: client_defs url_defs qs_defs build_defs scenario_defs py_def items_call_def)


lemma urlunparse_suffix:
  assumes "take 1 p = [47]"
  shows "\<exists>pre. urlunparse (s, n, p, [], [], []) = pre @ p"
proof -
  from assms have "p \<noteq> []" by auto
  with assms show ?thesis
    by (auto simp: urlunparse_def urlunsplit_def Let_def)
qed

lemma parse_qs_x1: "parse_qs (py ''x=1'') = [(py ''x'', [py ''1''])]"
  by (simp add: qs_defs partition_on_def py_def)

lemma utf8_encode_ok: "\<not> list_ex is_surrogate s \<Longrightarrow> \<exists>bs. utf8_encode s = Inr bs"
  by (induction s) auto

lemma set_join: "set (join sep xs) \<subseteq> set sep \<union> (\<Union>x\<in>set xs. set x)"
  by (induction sep xs rule: join.induct) auto

lemma response_header_block_ok:
  assumes "\<forall>(k, v)\<in>set h. \<not> list_ex is_surrogate k \<and> \<not> list_ex is_surrogate v"
  shows "\<exists>bs. utf8_encode (join [10] (map (\<lambda>(k, v). k @ py '': '' @ v) h)) = Inr bs"
proof (rule utf8_encode_ok)
  have "\<forall>c\<in>set (join [10] (map (\<lambda>(k, v). k @ py '': '' @ v) h)). \<not> is_surrogate c"
  proof
    fix c assume "c \<in> set (join [10] (map (\<lambda>(k, v). k @ py '': '' @ v) h))"
    with set_join[of "[10]" "map (\<lambda>(k, v). k @ py '': '' @ v) h"]
    have "c = 10 \<or> (\<exists>(k, v)\<in>set h. c \<in> set (k @ py '': '' @ v))"
      by auto
    with assms show "\<not> is_surrogate c"
      by (auto simp: list_ex_iff py_def is_surrogate_def)
  qed
  then show "\<not> list_ex is_surrogate (join [10] (map (\<lambda>(k, v). k @ py '': '' @ v) h))"
    by (simp add: list_ex_iff)
qed

lemma build_response_ok:
  assumes "\<forall>(k, v)\<in>set (rs_headers resp). \<not> list_ex is_surrogate k \<and> \<not> list_ex is_surrogate v"
  shows "\<exists>rs. build_response resp = Inr rs
          \<and> resp_status rs = rs_status_code resp
          \<and> content_text (resp_content rs) = rs_text resp
          \<and> content_size (resp_content rs) = length (rs_text resp)
          \<and> content_mimeType (resp_content rs) =
              (case ci_get (rs_headers resp) (py ''Content-Type'') of None \<Rightarrow> [] | Some m \<Rightarrow> m)"
proof -
  from response_header_block_ok[OF assms] obtain bs where
    "utf8_encode (join [10] (map (\<lambda>(k, v). k @ py '': '' @ v) (rs_headers resp))) = Inr bs" ..
  then show ?thesis
    by (simp add: build_response_def Let_def)
qed

section \<open>The claims about the client\<close>

text \<open>
  Claim C6, with the size corrected. \<open>GET\<close> on \<open>/items?x=1\<close>, with a prepared request
  that has no headers and no body and whose URL has the path \<open>/items\<close> and the query
  \<open>x=1\<close>, against a server that answers 200 with the body \<open>{"ok":true}\<close> and headers
  among which \<open>Content-Type\<close>, looked up without regard to case, is
  \<open>application/json\<close>: the call returns the response and appends one Entry with
  \<open>request.method\<close> \<open>GET\<close>, a \<open>request.url\<close> that ends in \<open>/items\<close> and has no \<open>?\<close>,
  \<open>request.queryString\<close> \<open>[(x, 1)]\<close>, \<open>response.status\<close> 200, the body as
  \<open>response.content.text\<close>, \<open>application/json\<close> as its \<open>mimeType\<close>, and
  \<open>response.content.size\<close> 11, the length of the body.
\<close>

theorem items_scenario:
  assumes "c_method c = py ''GET''" and "c_url c = py ''/items?x=1''"
    and "urljoin W (base_url st) (py ''/items?x=1'') = Inr target"
    and "transport W (requests_sent st) c = Inr resp"
    and "rs_status_code resp = 200"
    and "ci_get (rs_headers resp) (py ''Content-Type'') = Some (py ''application/json'')"
    and "\<forall>(k, v)\<in>set (rs_headers resp). \<not> list_ex is_surrogate k \<and> \<not> list_ex is_surrogate v"
    and "rs_text resp = ok_body"
    and "prepare W \<lparr>rq_method = py ''GET'', rq_url = target, rq_kwargs = c_kwargs c\<rparr>
           = Inr prepared"
    and "pr_method prepared = py ''GET''"
    and "pr_headers prepared = Some []"
    and "pr_body prepared = None"
    and "urlsplit W (pr_url prepared) = Inr u"
    and "sr_path u = py ''/items''"
    and "sr_query u = py ''x=1''"
  shows "\<exists>e st'. TestClient_request W c st = (Inr (after_text resp), st')
           \<and> har_writer st' = har_writer st @ [e]
           \<and> req_method (entry_request e) = py ''GET''
           \<and> (\<exists>pre. req_url (entry_request e) = pre @ py ''/items'')
           \<and> 63 \<notin> set (req_url (entry_request e))
           \<and> req_queryString (entry_request e) = [\<lparr>r_name = py ''x'', r_value = py ''1''\<rparr>]
           \<and> resp_status (entry_response e) = 200
           \<and> content_text (resp_content (entry_response e)) = ok_body
           \<and> content_mimeType (resp_content (entry_response e)) = py ''application/json''
           \<and> content_size (resp_content (entry_response e)) = 11"
proof -
  let ?start = "\<lparr>dt_instant = clock W (clock_reads st), dt_tzinfo = Some utc\<rparr>"
  let ?rq = "\<lparr>rq_method = py ''GET'', rq_url = target, rq_kwargs = c_kwargs c\<rparr>"
  have up: "upper W (py ''GET'') = py ''GET''"
    by (simp add: upper_def ascii_upper_def py_def)
  from build_response_ok[OF assms(7)] obtain rs where
    rs: "build_response resp = Inr rs" and
    rs1: "resp_status rs = 200" and
    rs2: "content_text (resp_content rs) = ok_body" and
    rs3: "content_size (resp_content rs) = length ok_body" and
    rs4: "content_mimeType (resp_content rs) = py ''application/json''"
    using assms(5,6,8) by auto
  have len: "length ok_body = 11"
    by (simp add: ok_body_def py_def)
  have "\<exists>rq. build_request (isprintable W) prepared u = Inr rq
          \<and> req_method rq = py ''GET''
          \<and> req_url rq = urlunparse (sr_scheme u, sr_netloc u, py ''/items'', [], [], [])
          \<and> req_queryString rq = [\<lparr>r_name = py ''x'', r_value = py ''1''\<rparr>]"
    by (simp add: build_request_def Let_def request_headers_of_def decode_body_def
          post_data_of_def assms(10,11,12,14,15) parse_qs_x1)
  then obtain rq where
    rq: "build_request (isprintable W) prepared u = Inr rq" and
    rq1: "req_method rq = py ''GET''" and
    rq2: "req_url rq = urlunparse (sr_scheme u, sr_netloc u, py ''/items'', [], [], [])" and
    rq3: "req_queryString rq = [\<lparr>r_name = py ''x'', r_value = py ''1''\<rparr>]"
    by blast
  have "take 1 (py ''/items'') = [47]"
    by (simp add: py_def)
  from urlunparse_suffix[OF this] rq2
  have rq4: "\<exists>pre. req_url rq = pre @ py ''/items''"
    by simp
  have "63 \<notin> set (urlunparse (sr_scheme u, sr_netloc u, sr_path u, [], [], []))
        \<and> 35 \<notin> set (urlunparse (sr_scheme u, sr_netloc u, sr_path u, [], [], []))"
    by (rule urlunparse_clean) (rule urlsplit_clean[OF assms(13)])+
  with rq2 assms(14) have rq5: "63 \<notin> set (req_url rq)"
    by simp
  define e where "e = \<lparr>entry_startedDateTime = ?start,
       entry_time = real_of_int (clock W (clock_reads st + 1) - clock W (clock_reads st)) / 1000,
       entry_request = rq, entry_response = rs, entry_cache = (),
       entry_timings = \<lparr>t_send = 0,
         t_wait = real_of_int (clock W (clock_reads st + 1) - clock W (clock_reads st)) / 1000,
         t_receive = 0\<rparr>\<rparr>"
  have b: "requests_to_har_entry W (clock W (clock_reads st + 1)) ?start ?rq resp = Inr e"
    by (simp add: requests_to_har_entry_def Let_def assms(9,13) rq rs e_def is_naive_def utc_def)
  have "TestClient_request W c st =
          (Inr (after_text resp), st\<lparr>clock_reads := clock_reads st + 2,
                         requests_sent := requests_sent st + 1,
                         har_writer := har_writer st @ [e]\<rparr>)"
    using b by (simp add: TestClient_request_def Let_def assms(1,2,3,4) up)
  moreover have "entry_request e = rq" "entry_response e = rs"
    by (simp_all add: e_def)
  ultimately show ?thesis
    using rq1 rq3 rq4 rq5 rs1 rs2 rs3 rs4 len by auto
qed

theorem items_scenario_witness:
  "transport (scenario_world items_response ticking) (requests_sent state0) items_call
     = Inr items_response
   \<and> ci_get (rs_headers items_response) (py ''Content-Type'') = Some (py ''application/json'')
   \<and> (\<exists>e st'. TestClient_request (scenario_world items_response ticking) items_call state0
           = (Inr items_response, st')
           \<and> har_writer st' = har_writer state0 @ [e]
           \<and> req_method (entry_request e) = py ''GET''
           \<and> (\<exists>pre. req_url (entry_request e) = pre @ py ''/items'')
           \<and> 63 \<notin> set (req_url (entry_request e))
           \<and> req_queryString (entry_request e) = [\<lparr>r_name = py ''x'', r_value = py ''1''\<rparr>]
           \<and> resp_status (entry_response e) = 200
           \<and> content_text (resp_content (entry_response e)) = ok_body
           \<and> content_mimeType (resp_content (entry_response e)) = py ''application/json''
           \<and> content_size (resp_content (entry_response e)) = 11)"
proof -
  let ?W = "scenario_world items_response ticking"
  let ?p = "\<lparr>pr_method = py ''GET'', pr_url = py ''http://testserver/items?x=1'',
             pr_headers = Some [], pr_body = None, pr_cookies = []\<rparr>"
  let ?u = "\<lparr>sr_scheme = py ''http'', sr_netloc = py ''testserver'', sr_path = py ''/items'',
             sr_query = py ''x=1'', sr_fragment = []\<rparr>"
  have 1: "c_method items_call = py ''GET''" and 2: "c_url items_call = py ''/items?x=1''"
    by (simp_all add: items_call_def)
  have 3: "urljoin ?W (base_url state0) (py ''/items?x=1'')
             = Inr (py ''http://testserver/items?x=1'')"
    by (simp add: scenario_world_def state0_def py_def)
  have 4: "transport ?W (requests_sent state0) items_call = Inr items_response"
    by (simp add: scenario_world_def)
  have 5: "rs_status_code items_response = 200"
    and 8: "rs_text items_response = ok_body"
    by (simp_all add: items_response_def)
  have 6: "ci_get (rs_headers items_response) (py ''Content-Type'')
             = Some (py ''application/json'')"
    by (simp add: items_response_def ci_get_def lower_def ascii_lower_def py_def)
  have 7: "\<forall>(k, v)\<in>set (rs_headers items_response).
             \<not> list_ex is_surrogate k \<and> \<not> list_ex is_surrogate v"
    by (simp add: items_response_def is_surrogate_def py_def)
  have 9: "prepare ?W \<lparr>rq_method = py ''GET'', rq_url = py ''http://testserver/items?x=1'',
                     rq_kwargs = c_kwargs items_call\<rparr> = Inr ?p"
    by (simp add: scenario_world_def items_call_def)
  have 10: "pr_method ?p = py ''GET''" and 11: "pr_headers ?p = Some []"
    and 12: "pr_body ?p = None"
    by simp_all
  have 13: "urlsplit ?W (pr_url ?p) = Inr ?u"
    by (simp add: url_defs py_def)
  have 14: "sr_path ?u = py ''/items''" and 15: "sr_query ?u = py ''x=1''"
    by simp_all
  have a: "after_text items_response = items_response"
    by (simp add: after_text_def items_response_def)
  from items_scenario[OF 1 2 3 4 5 6 7 8 9 10 11 12 13 14 15] 4 6 a show ?thesis
    by simp
qed

theorem items_content_size_counterexample:
  "fst (TestClient_request (scenario_world ok_response ticking) items_call state0)
     = Inr ok_response
   \<and> rs_text ok_response = ok_body
   \<and> length (har_writer (snd (TestClient_request (scenario_world ok_response ticking)
        items_call state0))) = 1
   \<and> content_size (resp_content (entry_response (hd (har_writer
        (snd (TestClient_request (scenario_world ok_response ticking) items_call state0))))))
     \<noteq> 12"
proof -
  have b0: "base_url state0 = py ''http://testserver''" and h0: "har_writer state0 = []"
    by (simp_all add: state0_def)
  from items_run_from[OF b0, of ticking] h0 show ?thesis
    by (auto simp: ok_response_def)
qed




text \<open>
  Claim C8, amended. Two calls in sequence that both return append exactly two
  Entries, the first call's before the second's; the \<open>startedDateTime\<close> of each is the
  clock reading at the start of its call, so the second is not earlier than the first
  whenever the clock has not stepped back between the two readings.
\<close>

theorem two_calls_two_entries:
  assumes "TestClient_request W c1 st = (Inr r1, st1)"
    and "TestClient_request W c2 st1 = (Inr r2, st2)"
  shows "\<exists>e1 e2. har_writer st2 = har_writer st @ [e1, e2]
           \<and> build_response r1 = Inr (entry_response e1)
           \<and> build_response r2 = Inr (entry_response e2)
           \<and> dt_instant (entry_startedDateTime e1) = clock W (clock_reads st)
           \<and> dt_instant (entry_startedDateTime e2) = clock W (clock_reads st + 2)
           \<and> (clock W (clock_reads st) \<le> clock W (clock_reads st + 2) \<longrightarrow>
                dt_instant (entry_startedDateTime e1) \<le> dt_instant (entry_startedDateTime e2))"
proof -
  from assms(1) obtain e1 resp1 t1 where
    b1: "requests_to_har_entry W (clock W (clock_reads st + 1))
       \<lparr>dt_instant = clock W (clock_reads st), dt_tzinfo = Some utc\<rparr>
       \<lparr>rq_method = upper W (c_method c1), rq_url = t1, rq_kwargs = c_kwargs c1\<rparr>
       resp1 = Inr e1" and
    a1: "r1 = after_text resp1" and
    h1: "har_writer st1 = har_writer st @ [e1]" and
    k1: "clock_reads st1 = clock_reads st + 2"
    by (rule TestClient_request_Inr)
  from assms(2) obtain e2 resp2 t2 where
    b2: "requests_to_har_entry W (clock W (clock_reads st1 + 1))
       \<lparr>dt_instant = clock W (clock_reads st1), dt_tzinfo = Some utc\<rparr>
       \<lparr>rq_method = upper W (c_method c2), rq_url = t2, rq_kwargs = c_kwargs c2\<rparr>
       resp2 = Inr e2" and
    a2: "r2 = after_text resp2" and
    h2: "har_writer st2 = har_writer st1 @ [e2]"
    by (rule TestClient_request_Inr)
  from b1 obtain p1 u1 where r1: "build_response resp1 = Inr (entry_response e1)"
    and s1: "entry_startedDateTime e1 = \<lparr>dt_instant = clock W (clock_reads st), dt_tzinfo = Some utc\<rparr>"
    by (rule requests_to_har_entry_Inr)
  from b2 obtain p2 u2 where r2: "build_response resp2 = Inr (entry_response e2)"
    and s2: "entry_startedDateTime e2 = \<lparr>dt_instant = clock W (clock_reads st1), dt_tzinfo = Some utc\<rparr>"
    by (rule requests_to_har_entry_Inr)
  have "har_writer st2 = har_writer st @ [e1, e2]"
    by (simp add: h1 h2)
  with r1 r2 s1 s2 k1 a1 a2 show ?thesis
    by (intro exI[of _ e1] exI[of _ e2]) (simp add: build_response_after_text)
qed

theorem two_calls_two_entries_witness:
  "fst (TestClient_request (scenario_world ok_response ticking) items_call state0) = Inr ok_response
   \<and> fst (TestClient_request (scenario_world ok_response ticking) items_call
        (snd (TestClient_request (scenario_world ok_response ticking) items_call state0)))
       = Inr ok_response
   \<and> clock (scenario_world ok_response ticking) (clock_reads state0)
       \<le> clock (scenario_world ok_response ticking) (clock_reads state0 + 2)
   \<and> (\<exists>e1 e2.
        har_writer (snd (TestClient_request (scenario_world ok_response ticking) items_call
          (snd (TestClient_request (scenario_world ok_response ticking) items_call state0))))
          = har_writer state0 @ [e1, e2]
        \<and> dt_instant (entry_startedDateTime e1) \<le> dt_instant (entry_startedDateTime e2))"
proof -
  let ?W = "scenario_world ok_response ticking"
  let ?st1 = "snd (TestClient_request ?W items_call state0)"
  let ?st2 = "snd (TestClient_request ?W items_call ?st1)"
  have b0: "base_url state0 = py ''http://testserver''"
    by (simp add: state0_def)
  from items_run_from[OF b0, of ticking] have
    f1: "fst (TestClient_request ?W items_call state0) = Inr ok_response" and
    b1: "base_url ?st1 = py ''http://testserver''"
    using b0 by auto
  from items_run_from[OF b1, of ticking] have
    f2: "fst (TestClient_request ?W items_call ?st1) = Inr ok_response"
    by auto
  from f1 have c1: "TestClient_request ?W items_call state0 = (Inr ok_response, ?st1)"
    by (simp add: prod_eq_iff)
  from f2 have c2: "TestClient_request ?W items_call ?st1 = (Inr ok_response, ?st2)"
    by (simp add: prod_eq_iff)
  have k: "clock ?W (clock_reads state0) \<le> clock ?W (clock_reads state0 + 2)"
    by (simp add: scenario_world_def ticking_def)
  from two_calls_two_entries[OF c1 c2] k f1 f2 show ?thesis
    by auto
qed

theorem two_calls_counterexample:
  "length (har_writer (snd (TestClient_request (scenario_world ok_response ticking) items_call
      (snd (TestClient_request (scenario_world ok_response ticking) untyped_post_call state0)))))
     = 1
   \<and> fst (TestClient_request (scenario_world ok_response stepping_back) items_call state0)
       = Inr ok_response
   \<and> fst (TestClient_request (scenario_world ok_response stepping_back) items_call
        (snd (TestClient_request (scenario_world ok_response stepping_back) items_call state0)))
       = Inr ok_response
   \<and> dt_instant (entry_startedDateTime
        (har_writer (snd (TestClient_request (scenario_world ok_response stepping_back) items_call
          (snd (TestClient_request (scenario_world ok_response stepping_back) items_call
             state0)))) ! 1))
     < dt_instant (entry_startedDateTime
        (har_writer (snd (TestClient_request (scenario_world ok_response stepping_back) items_call
          (snd (TestClient_request (scenario_world ok_response stepping_back) items_call
             state0)))) ! 0))"
proof -
  let ?W = "scenario_world ok_response ticking"
  let ?V = "scenario_world ok_response stepping_back"
  let ?s1 = "snd (TestClient_request ?W untyped_post_call state0)"
  have b1: "base_url ?s1 = py ''http://testserver''" and h1: "har_writer ?s1 = []"
    by (simp_all add: untyped_post_run)
  from items_run_from[OF b1, of ticking] h1
  have 1: "length (har_writer (snd (TestClient_request ?W items_call ?s1))) = 1"
    by auto
  let ?t1 = "snd (TestClient_request ?V items_call state0)"
  let ?t2 = "snd (TestClient_request ?V items_call ?t1)"
  have b0: "base_url state0 = py ''http://testserver''" and h0: "har_writer state0 = []"
    and k0: "clock_reads state0 = 0"
    by (simp_all add: state0_def)
  from items_run_from[OF b0, of stepping_back] obtain e1 where
    f1: "fst (TestClient_request ?V items_call state0) = Inr ok_response" and
    w1: "har_writer ?t1 = [e1]" and
    b2: "base_url ?t1 = py ''http://testserver''" and
    k1: "clock_reads ?t1 = 2" and
    t1: "dt_instant (entry_startedDateTime e1) = stepping_back 0"
    using b0 h0 k0 by auto
  from items_run_from[OF b2, of stepping_back] obtain e2 where
    f2: "fst (TestClient_request ?V items_call ?t1) = Inr ok_response" and
    w2: "har_writer ?t2 = [e1, e2]" and
    t2: "dt_instant (entry_startedDateTime e2) = stepping_back 2"
    using w1 k1 by auto
  from 1 f1 f2 w2 t1 t2 show ?thesis
    by (simp add: stepping_back_def)
qed

end
